theory Spec2Isabelle
  imports Main
begin

text \<open>
  A model of the access-control middleware, the registration-key service and the
  authentication service of the legal-practice application, and the properties stated of
  them. Pure functions of the source are functions here; an asynchronous function takes the
  state of the database and the console and returns its result, or the error it throws,
  with the state it leaves.
\<close>

section \<open>RBAC middleware\<close>

text \<open>
  The account tiers of \<^verbatim>\<open>AccountType\<close> (the Prisma enum the middleware imports).
\<close>

datatype AccountType = SIMPLES | COMPOSTA | GERENCIAL

text \<open>
  \<^verbatim>\<open>req.user\<close> as the middleware reads it: the two properties it looks at, each possibly
  absent. \<^verbatim>\<open>req.params.tenantId\<close> is the only path parameter read. Strings are lists of
  code units below 256, which covers every literal of the source.
\<close>

record AuthenticatedUser =
  accountType :: "AccountType option"
  tenantId :: "string option"

record AuthenticatedRequest =
  user :: "AuthenticatedUser option"
  params_tenantId :: "string option"

text \<open>
  What a middleware does with a request: it calls \<^verbatim>\<open>next()\<close>, or it answers with
  \<^verbatim>\<open>res.status(code).json(body)\<close>. The bodies are the four object shapes of the source.
\<close>

datatype body =
    ErrorBody string
  | RequiredBody string "AccountType list" AccountType
  | ForbiddenBody string "AccountType list" AccountType
  | TenantBody string string string

datatype outcome = Next | Respond nat body

text \<open>The messages of the source; a letter outside ASCII is its code unit.\<close>

definition msg_no_account_type :: string where
  "msg_no_account_type =
     ''Usu'' @ [CHR 0xE1] @ ''rio n'' @ [CHR 0xE3] @ ''o autenticado ou tipo de conta n''
       @ [CHR 0xE3] @ ''o identificado''"

definition msg_account_type_denied :: string where
  "msg_account_type_denied = ''Acesso negado para este tipo de conta''"

definition msg_no_tenant :: string where
  "msg_no_tenant =
     ''Usu'' @ [CHR 0xE1] @ ''rio n'' @ [CHR 0xE3] @ ''o autenticado ou tenant n''
       @ [CHR 0xE3] @ ''o identificado''"

definition msg_tenant_denied :: string where
  "msg_tenant_denied = ''Acesso negado: tenant n'' @ [CHR 0xE3] @ ''o autorizado''"

definition requireAccountTypes :: "AccountType list \<Rightarrow> AuthenticatedRequest \<Rightarrow> outcome" where
  "requireAccountTypes allowedTypes req =
     (case user req of
        None \<Rightarrow> Respond 401 (ErrorBody msg_no_account_type)
      | Some u \<Rightarrow>
          (case accountType u of
             None \<Rightarrow> Respond 401 (ErrorBody msg_no_account_type)
           | Some t \<Rightarrow>
               if t \<notin> set allowedTypes
               then Respond 403 (RequiredBody msg_account_type_denied allowedTypes t)
               else Next))"

definition forbidAccountTypes :: "AccountType list \<Rightarrow> AuthenticatedRequest \<Rightarrow> outcome" where
  "forbidAccountTypes forbiddenTypes req =
     (case user req of
        None \<Rightarrow> Respond 401 (ErrorBody msg_no_account_type)
      | Some u \<Rightarrow>
          (case accountType u of
             None \<Rightarrow> Respond 401 (ErrorBody msg_no_account_type)
           | Some t \<Rightarrow>
               if t \<in> set forbiddenTypes
               then Respond 403 (ForbiddenBody msg_account_type_denied forbiddenTypes t)
               else Next))"

definition requireCashFlowAccess :: "AuthenticatedRequest \<Rightarrow> outcome" where
  "requireCashFlowAccess = requireAccountTypes [COMPOSTA, GERENCIAL]"

definition requireSettingsAccess :: "AuthenticatedRequest \<Rightarrow> outcome" where
  "requireSettingsAccess = requireAccountTypes [GERENCIAL]"

record DashboardPermissions =
  canViewFinancialCharts :: bool
  canViewCashFlow :: bool
  canViewSettings :: bool
  canViewAllModules :: bool

definition getDashboardPermissions :: "AccountType \<Rightarrow> DashboardPermissions" where
  "getDashboardPermissions t =
     \<lparr> canViewFinancialCharts = (t \<noteq> SIMPLES),
       canViewCashFlow = (t \<in> set [COMPOSTA, GERENCIAL]),
       canViewSettings = (t = GERENCIAL),
       canViewAllModules = (t = GERENCIAL) \<rparr>"

text \<open>
  The tier ordering as the specification words it (SIMPLES < COMPOSTA < GERENCIAL); the
  source has no such ordering, only the two lists above.
\<close>

fun spec_tier_rank :: "AccountType \<Rightarrow> nat" where
  "spec_tier_rank SIMPLES = 0"
| "spec_tier_rank COMPOSTA = 1"
| "spec_tier_rank GERENCIAL = 2"

text \<open>
  \<^verbatim>\<open>!req.user.tenantId\<close> holds for an absent and for an empty tenant id, and
  \<^verbatim>\<open>pathTenantId && ...\<close> skips the comparison for an absent and for an empty parameter.
\<close>

definition validateTenantAccess :: "AuthenticatedRequest \<Rightarrow> outcome" where
  "validateTenantAccess req =
     (case user req of
        None \<Rightarrow> Respond 401 (ErrorBody msg_no_tenant)
      | Some u \<Rightarrow>
          (case tenantId u of
             None \<Rightarrow> Respond 401 (ErrorBody msg_no_tenant)
           | Some userTenant \<Rightarrow>
               if userTenant = [] then Respond 401 (ErrorBody msg_no_tenant)
               else
                 (case params_tenantId req of
                    None \<Rightarrow> Next
                  | Some pathTenantId \<Rightarrow>
                      if pathTenantId \<noteq> [] \<and> pathTenantId \<noteq> userTenant
                      then Respond 403 (TenantBody msg_tenant_denied userTenant pathTenantId)
                      else Next)))"

section \<open>Errors, awaited calls and the injected dependencies\<close>

text \<open>
  Every error of the source is \<^verbatim>\<open>new Error(message)\<close>; an error is its message.
  An \<^verbatim>\<open>await\<close>ed call takes the state of the outside world (the database, the console) and
  returns the value it resolves to, or the error it rejects with, and the state it leaves.
\<close>

datatype error = Error (message: string)

type_synonym ('a, 's) async = "'s \<Rightarrow> (error + 'a) \<times> 's"

text \<open>
  Times are milliseconds since the epoch (\<^verbatim>\<open>Date\<close>); a call reads the clock once, as
  \<^verbatim>\<open>now\<close>. The entries of a key's usage log are the two object shapes the source appends:
  \<^verbatim>\<open>{usedAt, tenantId, ip}\<close> in \<^verbatim>\<open>validateAndConsumeKey\<close> and
  \<^verbatim>\<open>{userId, email, usedAt}\<close> in \<^verbatim>\<open>registerUser\<close>.
\<close>

datatype used_log =
    ConsumedLog int string string
  | RegisteredLog string string int

text \<open>
  A number of the source is a double. The counts of uses are modelled by the integers, a
  count being an integer-valued double; fractions and \<^verbatim>\<open>NaN\<close> are outside the model.
  Comparison of such numbers is exact, and so is subtraction up to magnitude \<open>2 ^ 53\<close>;
  beyond it the doubles are spaced \<open>2\<close>, \<open>4\<close>, ... apart and the exact difference is
  rounded to the nearest of them, to the one with the even significand when it lies half
  way.
\<close>

fun double_spacing :: "nat \<Rightarrow> nat" where
  "double_spacing a = (if a < 2 ^ 53 then 1 else 2 * double_spacing (a div 2))"

declare double_spacing.simps [simp del]

definition to_double :: "int \<Rightarrow> int" where
  "to_double m =
     (let q = int (double_spacing (nat \<bar>m\<bar>));
          lo = (m div q) * q;
          r = m - lo
      in if 2 * r < q then lo
         else if q < 2 * r then lo + q
         else if even (m div q) then lo else lo + q)"

text \<open>\<^verbatim>\<open>a - b\<close> on two such numbers.\<close>

definition js_minus :: "int \<Rightarrow> int \<Rightarrow> int" where
  "js_minus a b = to_double (a - b)"

text \<open>
  The \<^verbatim>\<open>metadata\<close> of a key is any JSON value; objects and arrays are kept as their text and
  are truthy, as every object is.
\<close>

datatype json = JNull | JBool bool | JNumber int | JString string | JObject string

fun js_truthy :: "json \<Rightarrow> bool" where
  "js_truthy JNull = False"
| "js_truthy (JBool b) = b"
| "js_truthy (JNumber n) = (n \<noteq> 0)"
| "js_truthy (JString str) = (str \<noteq> [])"
| "js_truthy (JObject text) = True"

text \<open>
  \<^verbatim>\<open>keyData\<close>, the object \<^verbatim>\<open>generateKey\<close> hands to the database, and a stored key as the
  database returns it (the same columns and its id; the source reads them in snake case
  from \<^verbatim>\<open>getAllRegistrationKeys\<close> and in camel case from \<^verbatim>\<open>findValidRegistrationKeys\<close>).
  The tenant column and the usage log can be null in a stored row.
\<close>

record KeyData =
  key_hash :: string
  key_tenant_id :: "string option"
  key_account_type :: AccountType
  key_uses_allowed :: int
  key_uses_left :: int
  key_single_use :: bool
  key_expires_at :: "int option"
  key_metadata :: json
  key_created_by :: string
  key_used_logs :: "used_log list option"
  key_revoked :: bool

record RegistrationKey = KeyData +
  key_id :: string

record CreateKeyRequest =
  ckr_tenantId :: "string option"
  ckr_accountType :: AccountType
  ckr_usesAllowed :: "int option"
  ckr_expiresAt :: "int option"
  ckr_singleUse :: "bool option"
  ckr_metadata :: "json option"

text \<open>Users, tenants, token payloads and stored refresh tokens.\<close>

record User =
  usr_id :: string
  usr_email :: string
  usr_name :: string
  usr_password :: string
  usr_role :: "string option"
  usr_tenantId :: "string option"
  usr_accountType :: "AccountType option"
  usr_isActive :: bool
  usr_mustChangePassword :: bool

record UserData =
  ud_email :: string
  ud_password :: string
  ud_name :: string
  ud_accountType :: AccountType
  ud_tenantId :: string
  ud_isActive :: bool
  ud_mustChangePassword :: bool

record Tenant =
  tenant_id :: string
  tenant_name :: string

record TokenPayload =
  tp_userId :: string
  tp_email :: string
  tp_name :: string
  tp_role :: "string option"
  tp_tenantId :: "string option"
  tp_accountType :: "AccountType option"

record RefreshTokenData =
  rt_tokenHash :: string
  rt_userId :: string
  rt_expiresAt :: int
  rt_isActive :: bool

record StoredToken = RefreshTokenData +
  rt_id :: string

text \<open>
  The libraries \<^verbatim>\<open>bcrypt\<close> and \<^verbatim>\<open>jsonwebtoken\<close> are parameters. \<^verbatim>\<open>bcrypt_hash\<close> takes the
  data, the cost and the salt the library draws; \<^verbatim>\<open>jwt_sign\<close> takes the payload, the
  secret, the \<^verbatim>\<open>expiresIn\<close> option and the clock; \<^verbatim>\<open>jwt_verify\<close> takes the token, the secret
  and the clock, and \<^const>\<open>None\<close> is the exception it throws. The issuer and the audience
  are the same constants at every call and are left out. Hashing and signing always return,
  and \<^verbatim>\<open>bcrypt.compare\<close> of two strings resolves to a boolean.
\<close>

record Crypto =
  bcrypt_hash :: "string \<Rightarrow> nat \<Rightarrow> string \<Rightarrow> string"
  bcrypt_compare :: "string \<Rightarrow> string \<Rightarrow> bool"
  jwt_sign :: "TokenPayload \<Rightarrow> string \<Rightarrow> string \<Rightarrow> int \<Rightarrow> string"
  jwt_verify :: "string \<Rightarrow> string \<Rightarrow> int \<Rightarrow> TokenPayload option"

text \<open>
  The module \<^verbatim>\<open>../config/database\<close> is not among the sources: the services are modelled
  over any implementation of the functions they call on it. \<^verbatim>\<open>console_error\<close> is
  \<^verbatim>\<open>console.error\<close>, writing one line.
\<close>

record 's Deps =
  createRegistrationKey :: "KeyData \<Rightarrow> (unit, 's) async"
  getAllRegistrationKeys :: "(RegistrationKey list, 's) async"
  updateRegistrationKey :: "string \<Rightarrow> int \<Rightarrow> used_log list \<Rightarrow> (unit, 's) async"
  revokeRegistrationKey :: "string \<Rightarrow> (unit, 's) async"
  findValidRegistrationKeys :: "int \<Rightarrow> (RegistrationKey list, 's) async"
  updateRegistrationKeyUsage :: "string \<Rightarrow> int \<Rightarrow> used_log list \<Rightarrow> (unit, 's) async"
  createRefreshToken :: "RefreshTokenData \<Rightarrow> (unit, 's) async"
  getActiveRefreshTokensForUser :: "string \<Rightarrow> (StoredToken list, 's) async"
  revokeRefreshTokenById :: "string \<Rightarrow> (unit, 's) async"
  revokeAllUserTokens :: "string \<Rightarrow> (unit, 's) async"
  findUserByEmail :: "string \<Rightarrow> (User option, 's) async"
  updateUserLastLogin :: "string \<Rightarrow> (unit, 's) async"
  getAllTenants :: "(Tenant list, 's) async"
  createUser :: "UserData \<Rightarrow> (User, 's) async"
  console_error :: "string \<Rightarrow> 's \<Rightarrow> 's"

section \<open>RegistrationKeyService\<close>

definition msg_tenant_required :: string where
  "msg_tenant_required =
     ''tenantId '' @ [CHR 0xE9] @ '' obrigat'' @ [CHR 0xF3] @ ''rio para gerar chave de registro''"

definition msg_key_invalid :: string where
  "msg_key_invalid = ''Chave de registro inv'' @ [CHR 0xE1] @ ''lida''"

definition msg_key_revoked :: string where
  "msg_key_revoked = ''Chave de registro foi revogada''"

definition msg_key_expired :: string where
  "msg_key_expired = ''Chave de registro expirada''"

definition msg_key_exhausted :: string where
  "msg_key_exhausted = ''Chave de registro esgotou os usos permitidos''"

definition msg_key_wrong_tenant :: string where
  "msg_key_wrong_tenant =
     ''Chave de registro n'' @ [CHR 0xE3] @ ''o pertence ao tenant especificado''"

text \<open>
  \<^verbatim>\<open>String.prototype.trim\<close> on code units below 256: the white space and line terminators
  of ECMAScript in that range are TAB, LF, VT, FF, CR, SP and NBSP.
\<close>

definition js_whitespace :: "char \<Rightarrow> bool" where
  "js_whitespace c = (c \<in> set [CHR 0x09, CHR 0x0A, CHR 0x0B, CHR 0x0C, CHR 0x0D, CHR 0x20, CHR 0xA0])"

definition js_trim :: "string \<Rightarrow> string" where
  "js_trim str = rev (dropWhile js_whitespace (rev (dropWhile js_whitespace str)))"

text \<open>\<^verbatim>\<open>!request.tenantId || request.tenantId.trim() === ''\<close>\<close>

definition tenantId_missing :: "string option \<Rightarrow> bool" where
  "tenantId_missing t = (case t of None \<Rightarrow> True | Some str \<Rightarrow> str = [] \<or> js_trim str = [])"

text \<open>
  \<^verbatim>\<open>request.usesAllowed || 1\<close>: an absent count and the count 0 are both falsy.
\<close>

definition usesAllowed_or_1 :: "int option \<Rightarrow> int" where
  "usesAllowed_or_1 n = (case n of None \<Rightarrow> 1 | Some k \<Rightarrow> if k = 0 then 1 else k)"

text \<open>
  The object built at \<^verbatim>\<open>const keyData = {...}\<close>. \<^verbatim>\<open>request.metadata || {}\<close>: an absent
  and a falsy metadata become the empty object.
\<close>

definition keyData :: "CreateKeyRequest \<Rightarrow> string \<Rightarrow> string \<Rightarrow> KeyData" where
  "keyData request createdBy keyHash =
     \<lparr> key_hash = keyHash,
       key_tenant_id = ckr_tenantId request,
       key_account_type = ckr_accountType request,
       key_uses_allowed = usesAllowed_or_1 (ckr_usesAllowed request),
       key_uses_left = usesAllowed_or_1 (ckr_usesAllowed request),
       key_single_use = (case ckr_singleUse request of None \<Rightarrow> True | Some b \<Rightarrow> b),
       key_expires_at = ckr_expiresAt request,
       key_metadata =
         (case ckr_metadata request of
            None \<Rightarrow> JObject ''{}''
          | Some m \<Rightarrow> if js_truthy m then m else JObject ''{}''),
       key_created_by = createdBy,
       key_used_logs = Some [],
       key_revoked = False \<rparr>"

text \<open>
  The body of the \<^verbatim>\<open>try\<close> of \<^verbatim>\<open>generateKey\<close>. \<^verbatim>\<open>key\<close> is what
  \<^verbatim>\<open>crypto.randomBytes(32).toString('hex')\<close> returns and \<^verbatim>\<open>salt\<close> the salt of the hash.
\<close>

definition generateKey_try ::
  "Crypto \<Rightarrow> 's Deps \<Rightarrow> CreateKeyRequest \<Rightarrow> string \<Rightarrow> string \<Rightarrow> string \<Rightarrow> (string, 's) async" where
  "generateKey_try L D request createdBy key salt s =
     (if tenantId_missing (ckr_tenantId request) then (Inl (Error msg_tenant_required), s)
      else
        (case createRegistrationKey D (keyData request createdBy (bcrypt_hash L key 12 salt)) s of
           (Inl e, s1) \<Rightarrow> (Inl e, s1)
         | (Inr _, s1) \<Rightarrow> (Inr key, s1)))"

definition generateKey ::
  "Crypto \<Rightarrow> 's Deps \<Rightarrow> CreateKeyRequest \<Rightarrow> string \<Rightarrow> string \<Rightarrow> string \<Rightarrow> (string, 's) async" where
  "generateKey L D request createdBy key salt s =
     (case generateKey_try L D request createdBy key salt s of
        (Inl e, s1) \<Rightarrow>
          (Inl (Error (''Failed to generate registration key: '' @ message e)),
           console_error D (''Error in generateKey: '' @ message e) s1)
      | (Inr k, s1) \<Rightarrow> (Inr k, s1))"

definition listKeys :: "'s Deps \<Rightarrow> string option \<Rightarrow> (RegistrationKey list, 's) async" where
  "listKeys D tenant s =
     (case getAllRegistrationKeys D s of
        (Inl e, s1) \<Rightarrow> (Inl e, s1)
      | (Inr data, s1) \<Rightarrow>
          (case tenant of
             None \<Rightarrow> (Inr data, s1)
           | Some t \<Rightarrow>
               if t \<noteq> [] then (Inr (filter (\<lambda>k. key_tenant_id k = Some t) data), s1)
               else (Inr data, s1)))"

definition revokeKey :: "'s Deps \<Rightarrow> string \<Rightarrow> (unit, 's) async" where
  "revokeKey D keyId s = revokeRegistrationKey D keyId s"

text \<open>The loop that looks for the first stored key whose hash the plain key matches.\<close>

fun findMatchingKey :: "Crypto \<Rightarrow> string \<Rightarrow> RegistrationKey list \<Rightarrow> RegistrationKey option" where
  "findMatchingKey L plainKey [] = None"
| "findMatchingKey L plainKey (k # keys) =
     (if bcrypt_compare L plainKey (key_hash k) then Some k
      else findMatchingKey L plainKey keys)"

text \<open>\<^verbatim>\<open>matchingKey.expires_at && new Date() > new Date(matchingKey.expires_at)\<close>\<close>

definition key_expired :: "int \<Rightarrow> RegistrationKey \<Rightarrow> bool" where
  "key_expired now k = (case key_expires_at k of None \<Rightarrow> False | Some t \<Rightarrow> now > t)"

text \<open>
  \<^verbatim>\<open>validateAndConsumeKey\<close> after \<^verbatim>\<open>await database.getAllRegistrationKeys()\<close> has resolved
  to \<^verbatim>\<open>keys\<close>: the search, the four checks in the order of the source, and the update.
  \<^verbatim>\<open>now\<close> is the clock.
\<close>

definition consumeFetched ::
  "Crypto \<Rightarrow> 's Deps \<Rightarrow> string \<Rightarrow> string \<Rightarrow> int \<Rightarrow> RegistrationKey list
     \<Rightarrow> (AccountType \<times> string, 's) async" where
  "consumeFetched L D plainKey tenant now keys s =
     (case findMatchingKey L plainKey keys of
        None \<Rightarrow> (Inl (Error msg_key_invalid), s)
      | Some matchingKey \<Rightarrow>
          if key_revoked matchingKey then (Inl (Error msg_key_revoked), s)
          else if key_expired now matchingKey then (Inl (Error msg_key_expired), s)
          else if key_uses_left matchingKey \<le> 0 then (Inl (Error msg_key_exhausted), s)
          else
            (case key_tenant_id matchingKey of
               None \<Rightarrow> (Inl (Error msg_key_wrong_tenant), s)
             | Some keyTenant \<Rightarrow>
                 if keyTenant \<noteq> tenant then (Inl (Error msg_key_wrong_tenant), s)
                 else
                   (case updateRegistrationKey D (key_id matchingKey)
                           (js_minus (key_uses_left matchingKey) 1)
                           ((case key_used_logs matchingKey of None \<Rightarrow> [] | Some logs \<Rightarrow> logs)
                              @ [ConsumedLog now tenant ''system'']) s of
                      (Inl e, s1) \<Rightarrow> (Inl e, s1)
                    | (Inr _, s1) \<Rightarrow> (Inr (key_account_type matchingKey, keyTenant), s1))))"

definition validateAndConsumeKey_try ::
  "Crypto \<Rightarrow> 's Deps \<Rightarrow> string \<Rightarrow> string \<Rightarrow> int \<Rightarrow> (AccountType \<times> string, 's) async" where
  "validateAndConsumeKey_try L D plainKey tenant now s =
     (case getAllRegistrationKeys D s of
        (Inl e, s1) \<Rightarrow> (Inl e, s1)
      | (Inr keys, s1) \<Rightarrow> consumeFetched L D plainKey tenant now keys s1)"

definition validateAndConsumeKey ::
  "Crypto \<Rightarrow> 's Deps \<Rightarrow> string \<Rightarrow> string \<Rightarrow> int \<Rightarrow> (AccountType \<times> string, 's) async" where
  "validateAndConsumeKey L D plainKey tenant now s =
     (case validateAndConsumeKey_try L D plainKey tenant now s of
        (Inl e, s1) \<Rightarrow>
          (Inl e, console_error D (''Error validating registration key: '' @ message e) s1)
      | (Inr r, s1) \<Rightarrow> (Inr r, s1))"

section \<open>AuthService\<close>

text \<open>
  The two secrets of the service, and the two environment variables read when a token is
  signed.
\<close>

record AuthService =
  accessTokenSecret :: string
  refreshTokenSecret :: string
  JWT_ACCESS_EXPIRES :: "string option"
  JWT_REFRESH_EXPIRES :: "string option"

record Tokens =
  accessToken :: string
  refreshToken :: string

text \<open>A user object without its \<^verbatim>\<open>password\<close> property.\<close>

record PublicUser =
  pub_id :: string
  pub_email :: string
  pub_name :: string
  pub_role :: "string option"
  pub_tenantId :: "string option"
  pub_accountType :: "AccountType option"
  pub_isActive :: bool
  pub_mustChangePassword :: bool

definition withoutPassword :: "User \<Rightarrow> PublicUser" where
  "withoutPassword u =
     \<lparr> pub_id = usr_id u, pub_email = usr_email u, pub_name = usr_name u,
       pub_role = usr_role u, pub_tenantId = usr_tenantId u,
       pub_accountType = usr_accountType u, pub_isActive = usr_isActive u,
       pub_mustChangePassword = usr_mustChangePassword u \<rparr>"

definition hashPassword :: "Crypto \<Rightarrow> string \<Rightarrow> string \<Rightarrow> string" where
  "hashPassword L password salt = bcrypt_hash L password 12 salt"

definition verifyPassword :: "Crypto \<Rightarrow> string \<Rightarrow> string \<Rightarrow> bool" where
  "verifyPassword L password hash = bcrypt_compare L password hash"

text \<open>\<^verbatim>\<open>x || fallback\<close> on an environment variable: unset and empty are falsy.\<close>

definition env_or :: "string option \<Rightarrow> string \<Rightarrow> string" where
  "env_or v fallback = (case v of None \<Rightarrow> fallback | Some str \<Rightarrow> if str = [] then fallback else str)"

text \<open>
  The payload: \<^verbatim>\<open>role\<close> when the user has a truthy one, else \<^verbatim>\<open>tenantId\<close> and
  \<^verbatim>\<open>accountType\<close>.
\<close>

definition tokenPayload :: "User \<Rightarrow> TokenPayload" where
  "tokenPayload u =
     (if (case usr_role u of None \<Rightarrow> False | Some r \<Rightarrow> r \<noteq> [])
      then \<lparr> tp_userId = usr_id u, tp_email = usr_email u, tp_name = usr_name u,
             tp_role = usr_role u, tp_tenantId = None, tp_accountType = None \<rparr>
      else \<lparr> tp_userId = usr_id u, tp_email = usr_email u, tp_name = usr_name u,
             tp_role = None, tp_tenantId = usr_tenantId u,
             tp_accountType = usr_accountType u \<rparr>)"

definition signedTokens :: "AuthService \<Rightarrow> Crypto \<Rightarrow> User \<Rightarrow> int \<Rightarrow> Tokens" where
  "signedTokens svc L u now =
     \<lparr> accessToken = jwt_sign L (tokenPayload u) (accessTokenSecret svc)
                       (env_or (JWT_ACCESS_EXPIRES svc) ''24h'') now,
       refreshToken = jwt_sign L (tokenPayload u) (refreshTokenSecret svc)
                        (env_or (JWT_REFRESH_EXPIRES svc) ''7d'') now \<rparr>"

text \<open>
  \<^verbatim>\<open>generateTokens\<close>: both tokens are signed, the hash of the refresh token is stored with
  an expiry seven days ahead (the source adds seven calendar days, taken as 7 * 86400000
  milliseconds), and a rejection of that write is caught and logged.
\<close>

definition generateTokens ::
  "AuthService \<Rightarrow> Crypto \<Rightarrow> 's Deps \<Rightarrow> User \<Rightarrow> int \<Rightarrow> string \<Rightarrow> (Tokens, 's) async" where
  "generateTokens svc L D u now salt s =
     (let tokens = signedTokens svc L u now;
          tokenHash = bcrypt_hash L (refreshToken tokens) 10 salt
      in case createRefreshToken D
                \<lparr> rt_tokenHash = tokenHash, rt_userId = usr_id u,
                  rt_expiresAt = now + 604800000, rt_isActive = True \<rparr> s of
           (Inl e, s1) \<Rightarrow>
             (Inr tokens, console_error D (''Error storing refresh token: '' @ message e) s1)
         | (Inr _, s1) \<Rightarrow> (Inr tokens, s1))"

definition verifyAccessToken :: "AuthService \<Rightarrow> Crypto \<Rightarrow> string \<Rightarrow> int \<Rightarrow> error + TokenPayload" where
  "verifyAccessToken svc L token now =
     (case jwt_verify L token (accessTokenSecret svc) now of
        None \<Rightarrow> Inl (Error ''Invalid or expired access token'')
      | Some decoded \<Rightarrow> Inr decoded)"

text \<open>The loop over the stored tokens of \<^verbatim>\<open>verifyRefreshToken\<close>.\<close>

fun isValidToken :: "Crypto \<Rightarrow> string \<Rightarrow> StoredToken list \<Rightarrow> bool" where
  "isValidToken L token [] = False"
| "isValidToken L token (storedToken # userTokens) =
     (if bcrypt_compare L token (rt_tokenHash storedToken) then True
      else isValidToken L token userTokens)"

text \<open>Whatever is thrown inside the \<^verbatim>\<open>try\<close> is replaced by the one error of the \<^verbatim>\<open>catch\<close>.\<close>

definition verifyRefreshToken ::
  "AuthService \<Rightarrow> Crypto \<Rightarrow> 's Deps \<Rightarrow> string \<Rightarrow> int \<Rightarrow> (TokenPayload, 's) async" where
  "verifyRefreshToken svc L D token now s =
     (case jwt_verify L token (refreshTokenSecret svc) now of
        None \<Rightarrow> (Inl (Error ''Invalid or expired refresh token''), s)
      | Some decoded \<Rightarrow>
          (case getActiveRefreshTokensForUser D (tp_userId decoded) s of
             (Inl e, s1) \<Rightarrow> (Inl (Error ''Invalid or expired refresh token''), s1)
           | (Inr userTokens, s1) \<Rightarrow>
               if \<not> isValidToken L token userTokens
               then (Inl (Error ''Invalid or expired refresh token''), s1)
               else (Inr decoded, s1)))"

text \<open>The loop of \<^verbatim>\<open>refreshTokens\<close> that revokes the first stored token that matches.\<close>

fun revokeMatching :: "Crypto \<Rightarrow> 's Deps \<Rightarrow> string \<Rightarrow> StoredToken list \<Rightarrow> (unit, 's) async" where
  "revokeMatching L D token [] s = (Inr (), s)"
| "revokeMatching L D token (storedToken # userTokens) s =
     (if bcrypt_compare L token (rt_tokenHash storedToken)
      then revokeRefreshTokenById D (rt_id storedToken) s
      else revokeMatching L D token userTokens s)"

definition refreshTokens ::
  "AuthService \<Rightarrow> Crypto \<Rightarrow> 's Deps \<Rightarrow> string \<Rightarrow> int \<Rightarrow> string \<Rightarrow> (User \<times> Tokens, 's) async" where
  "refreshTokens svc L D token now salt s =
     (case verifyRefreshToken svc L D token now s of
        (Inl e, s1) \<Rightarrow> (Inl e, s1)
      | (Inr decoded, s1) \<Rightarrow>
          (case findUserByEmail D (tp_email decoded) s1 of
             (Inl e, s2) \<Rightarrow> (Inl e, s2)
           | (Inr None, s2) \<Rightarrow> (Inl (Error ''User not found or inactive''), s2)
           | (Inr (Some u), s2) \<Rightarrow>
               if \<not> usr_isActive u then (Inl (Error ''User not found or inactive''), s2)
               else
                 (case getActiveRefreshTokensForUser D (tp_userId decoded) s2 of
                    (Inl e, s3) \<Rightarrow> (Inl e, s3)
                  | (Inr userTokens, s3) \<Rightarrow>
                      (case revokeMatching L D token userTokens s3 of
                         (Inl e, s4) \<Rightarrow> (Inl e, s4)
                       | (Inr _, s4) \<Rightarrow>
                           (case generateTokens svc L D u now salt s4 of
                              (Inl e, s5) \<Rightarrow> (Inl e, s5)
                            | (Inr tokens, s5) \<Rightarrow> (Inr (u, tokens), s5))))))"

definition revokeAllTokens :: "'s Deps \<Rightarrow> string \<Rightarrow> bool \<Rightarrow> (unit, 's) async" where
  "revokeAllTokens D userId isAdmin s =
     (if isAdmin then (Inr (), s)
      else
        (case revokeAllUserTokens D userId s of
           (Inl e, s1) \<Rightarrow> (Inr (), console_error D (''Error revoking tokens: '' @ message e) s1)
         | (Inr _, s1) \<Rightarrow> (Inr (), s1)))"

definition loginUser ::
  "AuthService \<Rightarrow> Crypto \<Rightarrow> 's Deps \<Rightarrow> string \<Rightarrow> string \<Rightarrow> int \<Rightarrow> string
     \<Rightarrow> (PublicUser \<times> Tokens, 's) async" where
  "loginUser svc L D email password now salt s =
     (case findUserByEmail D email s of
        (Inl e, s1) \<Rightarrow> (Inl e, s1)
      | (Inr None, s1) \<Rightarrow> (Inl (Error ''Invalid credentials''), s1)
      | (Inr (Some u), s1) \<Rightarrow>
          if \<not> usr_isActive u then (Inl (Error ''Account is deactivated''), s1)
          else if \<not> verifyPassword L password (usr_password u)
            then (Inl (Error ''Invalid credentials''), s1)
          else
            (case updateUserLastLogin D (usr_id u) s1 of
               (Inl e, s2) \<Rightarrow> (Inl e, s2)
             | (Inr _, s2) \<Rightarrow>
                 (case generateTokens svc L D u now salt s2 of
                    (Inl e, s3) \<Rightarrow> (Inl e, s3)
                  | (Inr tokens, s3) \<Rightarrow> (Inr (withoutPassword u, tokens), s3))))"

text \<open>
  The loop of \<^verbatim>\<open>registerUser\<close> over the valid keys: a key with a falsy hash is skipped.
  \<^verbatim>\<open>bcrypt.compare\<close> of two strings resolves to a boolean, so the \<^verbatim>\<open>catch\<close> around it has
  nothing to catch here.
\<close>

fun findRegistrationKey :: "Crypto \<Rightarrow> string \<Rightarrow> RegistrationKey list \<Rightarrow> RegistrationKey option" where
  "findRegistrationKey L key [] = None"
| "findRegistrationKey L key (validKey # validKeys) =
     (if key_hash validKey \<noteq> [] \<and> bcrypt_compare L key (key_hash validKey) then Some validKey
      else findRegistrationKey L key validKeys)"

text \<open>
  \<^verbatim>\<open>registerUser\<close>. \<^verbatim>\<open>pwSalt\<close> and \<^verbatim>\<open>salt\<close> are the salts of the password hash and of
  the refresh-token hash. \<^verbatim>\<open>isNewTenant\<close> is the constant \<^verbatim>\<open>false\<close> of the source.
\<close>

definition registerUser ::
  "AuthService \<Rightarrow> Crypto \<Rightarrow> 's Deps \<Rightarrow> string \<Rightarrow> string \<Rightarrow> string \<Rightarrow> string \<Rightarrow> int
     \<Rightarrow> string \<Rightarrow> string \<Rightarrow> (PublicUser \<times> Tokens \<times> bool, 's) async" where
  "registerUser svc L D email password name key now pwSalt salt s =
     (case findValidRegistrationKeys D now s of
        (Inl e, s1) \<Rightarrow> (Inl e, s1)
      | (Inr validKeys, s1) \<Rightarrow>
          (case findRegistrationKey L key validKeys of
             None \<Rightarrow> (Inl (Error ''Invalid or expired registration key''), s1)
           | Some registrationKey \<Rightarrow>
               if (case key_tenant_id registrationKey of None \<Rightarrow> True | Some t \<Rightarrow> t = [])
               then (Inl (Error ''Invalid registration key - missing tenant association''),
                     console_error D
                       (''Registration key missing required tenantId: '' @ key_id registrationKey) s1)
               else
                 (case findUserByEmail D email s1 of
                    (Inl e, s2) \<Rightarrow> (Inl e, s2)
                  | (Inr (Some existingUser), s2) \<Rightarrow>
                      (Inl (Error ''User already exists with this email''), s2)
                  | (Inr None, s2) \<Rightarrow>
                      (case getAllTenants D s2 of
                         (Inl e, s3) \<Rightarrow> (Inl e, s3)
                       | (Inr tenants, s3) \<Rightarrow>
                           (case find (\<lambda>t. Some (tenant_id t) = key_tenant_id registrationKey) tenants of
                              None \<Rightarrow> (Inl (Error ''Associated tenant not found''), s3)
                            | Some tenant \<Rightarrow>
                                (case createUser D
                                        \<lparr> ud_email = email,
                                          ud_password = hashPassword L password pwSalt,
                                          ud_name = name,
                                          ud_accountType = key_account_type registrationKey,
                                          ud_tenantId = tenant_id tenant,
                                          ud_isActive = True,
                                          ud_mustChangePassword = False \<rparr> s3 of
                                   (Inl e, s4) \<Rightarrow> (Inl e, s4)
                                 | (Inr u, s4) \<Rightarrow>
                                     (case updateRegistrationKeyUsage D (key_id registrationKey)
                                             (js_minus (key_uses_left registrationKey) 1)
                                             ((case key_used_logs registrationKey of
                                                 None \<Rightarrow> [] | Some logs \<Rightarrow> logs)
                                                @ [RegisteredLog (usr_id u) (usr_email u) now]) s4 of
                                        (Inl e, s5) \<Rightarrow> (Inl e, s5)
                                      | (Inr _, s5) \<Rightarrow>
                                          (case generateTokens svc L D u now salt s5 of
                                             (Inl e, s6) \<Rightarrow> (Inl e, s6)
                                           | (Inr tokens, s6) \<Rightarrow>
                                               (Inr (withoutPassword u, tokens, False), s6)))))))))"

section \<open>Calls one after another, and calls that overlap\<close>

text \<open>
  A call of \<^verbatim>\<open>validateAndConsumeKey\<close> is suspended at
  \<^verbatim>\<open>await database.getAllRegistrationKeys()\<close>; this is the rest of the call, run when it is
  resumed with what the database answered.
\<close>

definition validateAndConsumeKey_resume ::
  "Crypto \<Rightarrow> 's Deps \<Rightarrow> string \<Rightarrow> string \<Rightarrow> int \<Rightarrow> error + RegistrationKey list
     \<Rightarrow> (AccountType \<times> string, 's) async" where
  "validateAndConsumeKey_resume L D plainKey tenant now fetched s =
     (case (case fetched of
              Inl e \<Rightarrow> (Inl e, s)
            | Inr keys \<Rightarrow> consumeFetched L D plainKey tenant now keys s) of
        (Inl e, s1) \<Rightarrow>
          (Inl e, console_error D (''Error validating registration key: '' @ message e) s1)
      | (Inr r, s1) \<Rightarrow> (Inr r, s1))"

text \<open>
  Two calls for the same plain key that overlap: the second is started while the first is
  suspended, so both have fetched the keys before either is resumed.
\<close>

definition overlappingCalls ::
  "Crypto \<Rightarrow> 's Deps \<Rightarrow> string \<Rightarrow> string \<Rightarrow> int \<Rightarrow> string \<Rightarrow> int \<Rightarrow> 's
     \<Rightarrow> ((error + AccountType \<times> string) \<times> (error + AccountType \<times> string)) \<times> 's" where
  "overlappingCalls L D plainKey tenantA nowA tenantB nowB s =
     (case getAllRegistrationKeys D s of
        (fetchedA, s1) \<Rightarrow>
          (case getAllRegistrationKeys D s1 of
             (fetchedB, s2) \<Rightarrow>
               (case validateAndConsumeKey_resume L D plainKey tenantA nowA fetchedA s2 of
                  (resultA, s3) \<Rightarrow>
                    (case validateAndConsumeKey_resume L D plainKey tenantB nowB fetchedB s3 of
                       (resultB, s4) \<Rightarrow> ((resultA, resultB), s4)))))"

text \<open>
  Calls for the same plain key, each with its tenant and its time, run one after another:
  a call starts when the one before has returned.
\<close>

fun consumeSequentially ::
  "Crypto \<Rightarrow> 's Deps \<Rightarrow> string \<Rightarrow> (string \<times> int) list \<Rightarrow> 's
     \<Rightarrow> (error + AccountType \<times> string) list \<times> 's" where
  "consumeSequentially L D plainKey [] s = ([], s)"
| "consumeSequentially L D plainKey ((tenant, now) # calls) s =
     (case validateAndConsumeKey L D plainKey tenant now s of
        (r, s1) \<Rightarrow>
          (case consumeSequentially L D plainKey calls s1 of
             (rs, s2) \<Rightarrow> (r # rs, s2)))"

definition successes :: "(error + 'a) list \<Rightarrow> nat" where
  "successes rs = length (filter (\<lambda>r. case r of Inl e \<Rightarrow> False | Inr v \<Rightarrow> True) rs)"

section \<open>A store in memory\<close>

text \<open>
  The tables of the database, the ids it has handed out, the users whose last login it has
  stamped, and the lines written to the console.
\<close>

record Store =
  st_keys :: "RegistrationKey list"
  st_tokens :: "StoredToken list"
  st_users :: "User list"
  st_tenants :: "Tenant list"
  st_logins :: "string list"
  st_next_id :: nat
  st_console :: "string list"

definition fresh_id :: "Store \<Rightarrow> string" where
  "fresh_id s = ''id-'' @ replicate (st_next_id s) (CHR ''i'')"

text \<open>
  Modelled from the spec: \<^verbatim>\<open>database.createRegistrationKey\<close>, missing from the sources
  ("persists a new key record"): the record is appended under a fresh id.
\<close>

definition mem_createRegistrationKey :: "KeyData \<Rightarrow> (unit, Store) async" where
  "mem_createRegistrationKey d s =
     (Inr (),
      s\<lparr> st_keys := st_keys s @
            [\<lparr> key_hash = key_hash d, key_tenant_id = key_tenant_id d,
               key_account_type = key_account_type d, key_uses_allowed = key_uses_allowed d,
               key_uses_left = key_uses_left d, key_single_use = key_single_use d,
               key_expires_at = key_expires_at d, key_metadata = key_metadata d,
               key_created_by = key_created_by d, key_used_logs = key_used_logs d,
               key_revoked = key_revoked d, key_id = fresh_id s \<rparr>],
         st_next_id := Suc (st_next_id s) \<rparr>)"

text \<open>
  Modelled from the spec: \<^verbatim>\<open>database.getAllRegistrationKeys\<close>, missing from the sources
  ("scans all stored keys").
\<close>

definition mem_getAllRegistrationKeys :: "(RegistrationKey list, Store) async" where
  "mem_getAllRegistrationKeys s = (Inr (st_keys s), s)"

text \<open>
  Modelled from the spec: \<^verbatim>\<open>database.updateRegistrationKey\<close> and
  \<^verbatim>\<open>database.updateRegistrationKeyUsage\<close>, missing from the sources: the two columns of the
  key with the given id are overwritten with the values passed.
\<close>

definition set_usage :: "string \<Rightarrow> int \<Rightarrow> used_log list \<Rightarrow> RegistrationKey \<Rightarrow> RegistrationKey" where
  "set_usage keyId usesLeft usedLogs k =
     (if key_id k = keyId then k\<lparr> key_uses_left := usesLeft, key_used_logs := Some usedLogs \<rparr>
      else k)"

definition mem_updateRegistrationKey :: "string \<Rightarrow> int \<Rightarrow> used_log list \<Rightarrow> (unit, Store) async" where
  "mem_updateRegistrationKey keyId usesLeft usedLogs s =
     (Inr (), s\<lparr> st_keys := map (set_usage keyId usesLeft usedLogs) (st_keys s) \<rparr>)"

text \<open>
  Modelled from the spec: \<^verbatim>\<open>database.revokeRegistrationKey\<close>, missing from the sources
  ("sets revoked = true; idempotent").
\<close>

definition mem_revokeRegistrationKey :: "string \<Rightarrow> (unit, Store) async" where
  "mem_revokeRegistrationKey keyId s =
     (Inr (),
      s\<lparr> st_keys := map (\<lambda>k. if key_id k = keyId then k\<lparr> key_revoked := True \<rparr> else k)
                       (st_keys s) \<rparr>)"

text \<open>
  Modelled from the spec: \<^verbatim>\<open>database.findValidRegistrationKeys\<close>, missing from the sources
  ("all currently valid (non-revoked, non-expired, uses-remaining) registration keys").
\<close>

definition key_valid :: "int \<Rightarrow> RegistrationKey \<Rightarrow> bool" where
  "key_valid now k =
     (\<not> key_revoked k
      \<and> (case key_expires_at k of None \<Rightarrow> True | Some t \<Rightarrow> now \<le> t)
      \<and> 0 < key_uses_left k)"

definition mem_findValidRegistrationKeys :: "int \<Rightarrow> (RegistrationKey list, Store) async" where
  "mem_findValidRegistrationKeys now s = (Inr (filter (key_valid now) (st_keys s)), s)"

text \<open>
  Modelled from the spec: \<^verbatim>\<open>database.createRefreshToken\<close>, missing from the sources
  ("persists a hash of the refresh token with its expiry and active flag; issuance never
  overwrites prior refresh tokens").
\<close>

definition mem_createRefreshToken :: "RefreshTokenData \<Rightarrow> (unit, Store) async" where
  "mem_createRefreshToken d s =
     (Inr (),
      s\<lparr> st_tokens := st_tokens s @
            [\<lparr> rt_tokenHash = rt_tokenHash d, rt_userId = rt_userId d,
               rt_expiresAt = rt_expiresAt d, rt_isActive = rt_isActive d,
               rt_id = fresh_id s \<rparr>],
         st_next_id := Suc (st_next_id s) \<rparr>)"

text \<open>
  Modelled from the spec: \<^verbatim>\<open>database.getActiveRefreshTokensForUser\<close>, missing from the
  sources ("the set of currently active refresh-token hashes stored for that user").
\<close>

definition mem_getActiveRefreshTokensForUser :: "string \<Rightarrow> (StoredToken list, Store) async" where
  "mem_getActiveRefreshTokensForUser userId s =
     (Inr (filter (\<lambda>t. rt_userId t = userId \<and> rt_isActive t) (st_tokens s)), s)"

text \<open>
  Modelled from the spec: \<^verbatim>\<open>database.revokeRefreshTokenById\<close>, missing from the sources
  ("invalidated individually on rotation"): the token with the given id becomes inactive.
\<close>

definition mem_revokeRefreshTokenById :: "string \<Rightarrow> (unit, Store) async" where
  "mem_revokeRefreshTokenById tokenId s =
     (Inr (),
      s\<lparr> st_tokens := map (\<lambda>t. if rt_id t = tokenId then t\<lparr> rt_isActive := False \<rparr> else t)
                         (st_tokens s) \<rparr>)"

text \<open>
  Modelled from the spec: \<^verbatim>\<open>database.revokeAllUserTokens\<close>, missing from the sources
  ("bulk-deactivates all refresh tokens for a user").
\<close>

definition mem_revokeAllUserTokens :: "string \<Rightarrow> (unit, Store) async" where
  "mem_revokeAllUserTokens userId s =
     (Inr (),
      s\<lparr> st_tokens := map (\<lambda>t. if rt_userId t = userId then t\<lparr> rt_isActive := False \<rparr> else t)
                         (st_tokens s) \<rparr>)"

text \<open>
  Modelled from the spec: \<^verbatim>\<open>database.findUserByEmail\<close>, \<^verbatim>\<open>database.updateUserLastLogin\<close>,
  \<^verbatim>\<open>database.getAllTenants\<close> and \<^verbatim>\<open>database.createUser\<close>, missing from the sources
  ("create/find/update user", "list tenants"). A user is created without a role.
\<close>

definition mem_findUserByEmail :: "string \<Rightarrow> (User option, Store) async" where
  "mem_findUserByEmail email s = (Inr (find (\<lambda>u. usr_email u = email) (st_users s)), s)"

definition mem_updateUserLastLogin :: "string \<Rightarrow> (unit, Store) async" where
  "mem_updateUserLastLogin userId s = (Inr (), s\<lparr> st_logins := st_logins s @ [userId] \<rparr>)"

definition mem_getAllTenants :: "(Tenant list, Store) async" where
  "mem_getAllTenants s = (Inr (st_tenants s), s)"

definition new_user :: "UserData \<Rightarrow> string \<Rightarrow> User" where
  "new_user d uid =
     \<lparr> usr_id = uid, usr_email = ud_email d, usr_name = ud_name d,
       usr_password = ud_password d, usr_role = None, usr_tenantId = Some (ud_tenantId d),
       usr_accountType = Some (ud_accountType d), usr_isActive = ud_isActive d,
       usr_mustChangePassword = ud_mustChangePassword d \<rparr>"

definition mem_createUser :: "UserData \<Rightarrow> (User, Store) async" where
  "mem_createUser d s =
     (Inr (new_user d (fresh_id s)),
      s\<lparr> st_users := st_users s @ [new_user d (fresh_id s)],
         st_next_id := Suc (st_next_id s) \<rparr>)"

definition mem_console_error :: "string \<Rightarrow> Store \<Rightarrow> Store" where
  "mem_console_error line s = s\<lparr> st_console := st_console s @ [line] \<rparr>"

definition mem :: "Store Deps" where
  "mem =
     \<lparr> createRegistrationKey = mem_createRegistrationKey,
       getAllRegistrationKeys = mem_getAllRegistrationKeys,
       updateRegistrationKey = mem_updateRegistrationKey,
       revokeRegistrationKey = mem_revokeRegistrationKey,
       findValidRegistrationKeys = mem_findValidRegistrationKeys,
       updateRegistrationKeyUsage = mem_updateRegistrationKey,
       createRefreshToken = mem_createRefreshToken,
       getActiveRefreshTokensForUser = mem_getActiveRefreshTokensForUser,
       revokeRefreshTokenById = mem_revokeRefreshTokenById,
       revokeAllUserTokens = mem_revokeAllUserTokens,
       findUserByEmail = mem_findUserByEmail,
       updateUserLastLogin = mem_updateUserLastLogin,
       getAllTenants = mem_getAllTenants,
       createUser = mem_createUser,
       console_error = mem_console_error \<rparr>"

section \<open>Concrete libraries and stores\<close>

text \<open>
  A hash that keeps the data in clear behind its salt, and a token that carries the secret,
  the user id, the email and the issue time in clear, to run the services on examples.
\<close>

definition demo_hash :: "string \<Rightarrow> nat \<Rightarrow> string \<Rightarrow> string" where
  "demo_hash data cost salt = salt @ ''$'' @ data"

definition demo_compare :: "string \<Rightarrow> string \<Rightarrow> bool" where
  "demo_compare data hash = (dropWhile (\<lambda>c. c \<noteq> CHR ''$'') hash = ''$'' @ data)"

definition demo_sign :: "TokenPayload \<Rightarrow> string \<Rightarrow> string \<Rightarrow> int \<Rightarrow> string" where
  "demo_sign p secret expiresIn now =
     secret @ ''|'' @ tp_userId p @ ''|'' @ tp_email p @ ''|'' @ replicate (nat now) (CHR ''+'')"

fun bar_fields :: "string \<Rightarrow> string list" where
  "bar_fields [] = [[]]"
| "bar_fields (c # cs) =
     (if c = CHR ''|'' then [] # bar_fields cs
      else (case bar_fields cs of [] \<Rightarrow> [[c]] | f # fs \<Rightarrow> (c # f) # fs))"

definition demo_verify :: "string \<Rightarrow> string \<Rightarrow> int \<Rightarrow> TokenPayload option" where
  "demo_verify token secret now =
     (case bar_fields token of
        [sec, uid, em, iat] \<Rightarrow>
          if sec = secret
          then Some \<lparr> tp_userId = uid, tp_email = em, tp_name = [], tp_role = None,
                      tp_tenantId = None, tp_accountType = None \<rparr>
          else None
      | _ \<Rightarrow> None)"

definition demo_crypto :: Crypto where
  "demo_crypto =
     \<lparr> bcrypt_hash = demo_hash, bcrypt_compare = demo_compare,
       jwt_sign = demo_sign, jwt_verify = demo_verify \<rparr>"

definition demo_service :: AuthService where
  "demo_service =
     \<lparr> accessTokenSecret = ''a'', refreshTokenSecret = ''r'',
       JWT_ACCESS_EXPIRES = None, JWT_REFRESH_EXPIRES = None \<rparr>"

definition empty_store :: Store where
  "empty_store =
     \<lparr> st_keys = [], st_tokens = [], st_users = [], st_tenants = [], st_logins = [],
       st_next_id = 0, st_console = [] \<rparr>"

text \<open>A stored key for tenant T1, hashed from the plain key \<^verbatim>\<open>k1\<close>, with one use left.\<close>

definition demo_key :: RegistrationKey where
  "demo_key =
     \<lparr> key_hash = demo_hash ''k1'' 12 ''salt'', key_tenant_id = Some ''T1'',
       key_account_type = COMPOSTA, key_uses_allowed = 1, key_uses_left = 1,
       key_single_use = True, key_expires_at = None, key_metadata = JObject ''{}'',
       key_created_by = ''admin'', key_used_logs = Some [], key_revoked = False,
       key_id = ''key-1'' \<rparr>"

definition demo_request :: CreateKeyRequest where
  "demo_request =
     \<lparr> ckr_tenantId = Some ''T1'', ckr_accountType = COMPOSTA, ckr_usesAllowed = None,
       ckr_expiresAt = None, ckr_singleUse = None, ckr_metadata = None \<rparr>"

definition demo_user :: User where
  "demo_user =
     \<lparr> usr_id = ''u1'', usr_email = ''a@x.com'', usr_name = ''Ana'',
       usr_password = demo_hash ''secret'' 12 ''pw'', usr_role = None,
       usr_tenantId = Some ''T1'', usr_accountType = Some COMPOSTA, usr_isActive = True,
       usr_mustChangePassword = False \<rparr>"

text \<open>
  The store in memory with a database connection that rejects the writes of refresh tokens.
\<close>

definition failing_writes :: "Store Deps" where
  "failing_writes =
     mem\<lparr> createRefreshToken := (\<lambda>d s. (Inl (Error ''connection lost''), s)),
          revokeAllUserTokens := (\<lambda>userId s. (Inl (Error ''connection lost''), s)) \<rparr>"

text \<open>The refresh token issued to the demo user at time 0.\<close>

definition demo_token :: string where
  "demo_token = demo_sign (tokenPayload demo_user) ''r'' ''7d'' 0"

text \<open>The store after the demo user has logged in twice at time 0.\<close>

definition two_sessions :: Store where
  "two_sessions =
     snd (loginUser demo_service demo_crypto mem ''a@x.com'' ''secret'' 0 ''s2''
            (snd (loginUser demo_service demo_crypto mem ''a@x.com'' ''secret'' 0 ''s1''
                    (empty_store\<lparr> st_users := [demo_user] \<rparr>))))"

text \<open>
  A hash that reads only the first 72 bytes of its data, as the \<^verbatim>\<open>bcrypt\<close> algorithm does,
  and a token laid out as the tokens of \<^verbatim>\<open>jsonwebtoken\<close> are: the 36 characters of the
  encoded header, a separator, the payload with the user id first and the issue time last,
  and the signature. A user whose id is a UUID, the refresh token issued to that user at
  time 0, and a store that holds the user and the record of that token.
\<close>

definition bcrypt72_hash :: "string \<Rightarrow> nat \<Rightarrow> string \<Rightarrow> string" where
  "bcrypt72_hash data cost salt = salt @ ''$'' @ take 72 data"

definition bcrypt72_compare :: "string \<Rightarrow> string \<Rightarrow> bool" where
  "bcrypt72_compare data hash = (dropWhile (\<lambda>c. c \<noteq> CHR ''$'') hash = ''$'' @ take 72 data)"

definition jwt_header :: string where
  "jwt_header = ''eyJhbGciOiJIUzI1NiIsInR5cCI6IkpXVCJ9''"

definition layout_sign :: "TokenPayload \<Rightarrow> string \<Rightarrow> string \<Rightarrow> int \<Rightarrow> string" where
  "layout_sign p secret expiresIn now =
     jwt_header @ ''|'' @ tp_userId p @ ''|'' @ tp_email p @ ''|''
       @ replicate (nat now) (CHR ''+'') @ ''|'' @ secret"

definition layout_verify :: "string \<Rightarrow> string \<Rightarrow> int \<Rightarrow> TokenPayload option" where
  "layout_verify token secret now =
     (case bar_fields token of
        [header, uid, em, iat, sig] \<Rightarrow>
          if header = jwt_header \<and> sig = secret
          then Some \<lparr> tp_userId = uid, tp_email = em, tp_name = [], tp_role = None,
                      tp_tenantId = None, tp_accountType = None \<rparr>
          else None
      | _ \<Rightarrow> None)"

definition bcrypt72_crypto :: Crypto where
  "bcrypt72_crypto =
     \<lparr> bcrypt_hash = bcrypt72_hash, bcrypt_compare = bcrypt72_compare,
       jwt_sign = layout_sign, jwt_verify = layout_verify \<rparr>"

definition uuid_user :: User where
  "uuid_user = demo_user\<lparr> usr_id := ''3f2b8c1e-7a4d-4e9b-9c0a-5d6e7f8a9b0c'' \<rparr>"

definition uuid_token :: string where
  "uuid_token = layout_sign (tokenPayload uuid_user) ''r'' ''7d'' 0"

definition uuid_session :: Store where
  "uuid_session =
     empty_store
       \<lparr> st_users := [uuid_user],
         st_tokens := [\<lparr> rt_tokenHash = bcrypt72_hash uuid_token 10 ''s0'',
                         rt_userId = usr_id uuid_user, rt_expiresAt = 604800000,
                         rt_isActive = True, rt_id = ''t0'' \<rparr>] \<rparr>"

text \<open>A store that holds the demo key and its tenant.\<close>

definition demo_onboarding :: Store where
  "demo_onboarding =
     empty_store\<lparr> st_keys := [demo_key],
                  st_tenants := [\<lparr> tenant_id = ''T1'', tenant_name = ''Acme'' \<rparr>] \<rparr>"

section \<open>Properties of the middleware\<close>

text \<open>
  Claim C7. \<^verbatim>\<open>requireAccountTypes(allowed)\<close> calls the next handler exactly when the
  request carries an identity whose account tier is in \<^verbatim>\<open>allowed\<close>; an identity with a
  tier outside the list gets status 403 with the required list and its own tier; a request
  without an identity gets status 401.
\<close>

theorem requireAccountTypes_decision:
  "(requireAccountTypes allowed req = Next
      \<longleftrightarrow> (\<exists>u t. user req = Some u \<and> accountType u = Some t \<and> t \<in> set allowed))
   \<and> (\<forall>u t. user req = Some u \<and> accountType u = Some t \<and> t \<notin> set allowed
        \<longrightarrow> requireAccountTypes allowed req
              = Respond 403 (RequiredBody msg_account_type_denied allowed t))
   \<and> (user req = None
        \<longrightarrow> requireAccountTypes allowed req = Respond 401 (ErrorBody msg_no_account_type))"
  by (auto simp: requireAccountTypes_def split: option.splits)

theorem requireAccountTypes_decision_witness:
  "requireAccountTypes [GERENCIAL]
      \<lparr> user = Some \<lparr> accountType = Some COMPOSTA, tenantId = Some ''T1'' \<rparr>,
        params_tenantId = None \<rparr>
     = Respond 403 (RequiredBody msg_account_type_denied [GERENCIAL] COMPOSTA)
   \<and> requireAccountTypes [GERENCIAL] \<lparr> user = None, params_tenantId = None \<rparr>
     = Respond 401 (ErrorBody msg_no_account_type)
   \<and> requireAccountTypes [GERENCIAL]
      \<lparr> user = Some \<lparr> accountType = Some GERENCIAL, tenantId = Some ''T1'' \<rparr>,
        params_tenantId = None \<rparr> = Next"
  using requireAccountTypes_decision [of "[GERENCIAL]"
          "\<lparr> user = Some \<lparr> accountType = Some COMPOSTA, tenantId = Some ''T1'' \<rparr>,
             params_tenantId = None \<rparr>"]
        requireAccountTypes_decision [of "[GERENCIAL]" "\<lparr> user = None, params_tenantId = None \<rparr>"]
        requireAccountTypes_decision [of "[GERENCIAL]"
          "\<lparr> user = Some \<lparr> accountType = Some GERENCIAL, tenantId = Some ''T1'' \<rparr>,
             params_tenantId = None \<rparr>"]
  by simp

text \<open>
  Claim C8. For every tier \<^verbatim>\<open>t\<close> and every request whose identity has that tier,
  \<^verbatim>\<open>canViewCashFlow\<close> of \<^verbatim>\<open>getDashboardPermissions(t)\<close> is true exactly when
  \<^verbatim>\<open>requireCashFlowAccess\<close> lets the request through, which is when the tier is at least
  COMPOSTA, and \<^verbatim>\<open>canViewSettings\<close> is true exactly when \<^verbatim>\<open>requireSettingsAccess\<close> lets it
  through, which is when the tier is GERENCIAL.
\<close>

theorem dashboard_permissions_agree:
  "canViewCashFlow (getDashboardPermissions t)
     = (requireCashFlowAccess (req\<lparr> user := Some (u\<lparr> accountType := Some t \<rparr>) \<rparr>) = Next)
   \<and> canViewSettings (getDashboardPermissions t)
     = (requireSettingsAccess (req\<lparr> user := Some (u\<lparr> accountType := Some t \<rparr>) \<rparr>) = Next)
   \<and> canViewCashFlow (getDashboardPermissions t) = (spec_tier_rank COMPOSTA \<le> spec_tier_rank t)
   \<and> canViewSettings (getDashboardPermissions t) = (t = GERENCIAL)"
  by (cases t)
     (simp_all add: getDashboardPermissions_def requireCashFlowAccess_def
        requireSettingsAccess_def requireAccountTypes_def)

text \<open>
  Claim C10. When the request carries an identity with a non-empty tenant id and the path
  has no \<^verbatim>\<open>tenantId\<close> parameter, \<^verbatim>\<open>validateTenantAccess\<close> calls the next handler: no
  tenant is compared.
\<close>

theorem validateTenantAccess_without_path_tenant:
  assumes "user req = Some u" and "tenantId u = Some t" and "t \<noteq> []"
    and "params_tenantId req = None"
  shows "validateTenantAccess req = Next"
  using assms by (simp add: validateTenantAccess_def)

theorem validateTenantAccess_without_path_tenant_witness:
  "validateTenantAccess
     \<lparr> user = Some \<lparr> accountType = Some SIMPLES, tenantId = Some ''T1'' \<rparr>,
       params_tenantId = None \<rparr> = Next"
  using validateTenantAccess_without_path_tenant
          [of "\<lparr> user = Some \<lparr> accountType = Some SIMPLES, tenantId = Some ''T1'' \<rparr>,
                 params_tenantId = None \<rparr>"
              "\<lparr> accountType = Some SIMPLES, tenantId = Some ''T1'' \<rparr>" "''T1''"]
  by simp

section \<open>Properties of the registration keys\<close>

lemmas key_msgs = msg_key_invalid_def msg_key_revoked_def msg_key_expired_def
  msg_key_exhausted_def msg_key_wrong_tenant_def

lemma all_dropWhile: "(\<forall>x\<in>set (dropWhile P xs). P x) = (\<forall>x\<in>set xs. P x)"
  by (induction xs) auto

lemma js_trim_empty: "js_trim str = [] \<longleftrightarrow> list_all js_whitespace str"
  by (simp add: js_trim_def list_all_iff dropWhile_eq_Nil_conv all_dropWhile)

lemma tenantId_missing_iff:
  "tenantId_missing t = (case t of None \<Rightarrow> True | Some str \<Rightarrow> list_all js_whitespace str)"
  by (auto simp: tenantId_missing_def js_trim_empty split: option.splits)

lemma mem_fields [simp]:
  "createRegistrationKey mem = mem_createRegistrationKey"
  "getAllRegistrationKeys mem = mem_getAllRegistrationKeys"
  "updateRegistrationKey mem = mem_updateRegistrationKey"
  "revokeRegistrationKey mem = mem_revokeRegistrationKey"
  "findValidRegistrationKeys mem = mem_findValidRegistrationKeys"
  "updateRegistrationKeyUsage mem = mem_updateRegistrationKey"
  "createRefreshToken mem = mem_createRefreshToken"
  "getActiveRefreshTokensForUser mem = mem_getActiveRefreshTokensForUser"
  "revokeRefreshTokenById mem = mem_revokeRefreshTokenById"
  "revokeAllUserTokens mem = mem_revokeAllUserTokens"
  "findUserByEmail mem = mem_findUserByEmail"
  "updateUserLastLogin mem = mem_updateUserLastLogin"
  "getAllTenants mem = mem_getAllTenants"
  "createUser mem = mem_createUser"
  "console_error mem = mem_console_error"
  by (simp_all add: mem_def)

lemma demo_crypto_fields [simp]:
  "bcrypt_hash demo_crypto = demo_hash"
  "bcrypt_compare demo_crypto = demo_compare"
  "jwt_sign demo_crypto = demo_sign"
  "jwt_verify demo_crypto = demo_verify"
  by (simp_all add: demo_crypto_def)

text \<open>
  Claim C2. Once the stored keys are fetched, \<^verbatim>\<open>validateAndConsumeKey\<close> fails with the
  not-found error when no hash matches, and for the key found it checks revoked, then
  expired, then uses left, then tenant: a revoked key gets the revoked error whatever its
  uses and expiry, and each later error is the one of the first check that fails. The five
  messages are pairwise different.
\<close>

theorem validateAndConsumeKey_check_order:
  assumes "getAllRegistrationKeys D s = (Inr keys, s1)"
  shows "(findMatchingKey L plainKey keys = None
            \<longrightarrow> fst (validateAndConsumeKey L D plainKey tenant now s) = Inl (Error msg_key_invalid))
       \<and> (\<forall>k. findMatchingKey L plainKey keys = Some k \<and> key_revoked k
            \<longrightarrow> fst (validateAndConsumeKey L D plainKey tenant now s) = Inl (Error msg_key_revoked))
       \<and> (\<forall>k. findMatchingKey L plainKey keys = Some k \<and> \<not> key_revoked k \<and> key_expired now k
            \<longrightarrow> fst (validateAndConsumeKey L D plainKey tenant now s) = Inl (Error msg_key_expired))
       \<and> (\<forall>k. findMatchingKey L plainKey keys = Some k \<and> \<not> key_revoked k \<and> \<not> key_expired now k
              \<and> key_uses_left k \<le> 0
            \<longrightarrow> fst (validateAndConsumeKey L D plainKey tenant now s) = Inl (Error msg_key_exhausted))
       \<and> (\<forall>k. findMatchingKey L plainKey keys = Some k \<and> \<not> key_revoked k \<and> \<not> key_expired now k
              \<and> 0 < key_uses_left k \<and> key_tenant_id k \<noteq> Some tenant
            \<longrightarrow> fst (validateAndConsumeKey L D plainKey tenant now s)
                  = Inl (Error msg_key_wrong_tenant))
       \<and> distinct [msg_key_invalid, msg_key_revoked, msg_key_expired, msg_key_exhausted,
                   msg_key_wrong_tenant]"
proof -
  have d: "distinct [msg_key_invalid, msg_key_revoked, msg_key_expired, msg_key_exhausted,
                     msg_key_wrong_tenant]"
    by (simp add: key_msgs)
  show ?thesis
    using assms d
    by (auto simp: validateAndConsumeKey_def validateAndConsumeKey_try_def consumeFetched_def
             split: option.splits)
qed

theorem validateAndConsumeKey_check_order_witness:
  "fst (validateAndConsumeKey demo_crypto mem ''k1'' ''T1'' 0
          (empty_store\<lparr> st_keys := [demo_key\<lparr> key_revoked := True \<rparr>] \<rparr>))
     = Inl (Error msg_key_revoked)
   \<and> 0 < key_uses_left (demo_key\<lparr> key_revoked := True \<rparr>)
   \<and> \<not> key_expired 0 (demo_key\<lparr> key_revoked := True \<rparr>)"
  using validateAndConsumeKey_check_order
          [of mem "empty_store\<lparr> st_keys := [demo_key\<lparr> key_revoked := True \<rparr>] \<rparr>"
              "[demo_key\<lparr> key_revoked := True \<rparr>]"
              "empty_store\<lparr> st_keys := [demo_key\<lparr> key_revoked := True \<rparr>] \<rparr>"
              demo_crypto "''k1''" "''T1''" 0]
  by (simp add: mem_getAllRegistrationKeys_def empty_store_def demo_key_def demo_hash_def
        demo_compare_def key_expired_def)

text \<open>
  Claim C1, as stated, fails: a revoked key of tenant T1 whose hash matches, presented for
  tenant T2, is refused with the revoked error, not with the tenant-mismatch error.
\<close>

theorem tenant_mismatch_counterexample:
  "fst (validateAndConsumeKey demo_crypto mem ''k1'' ''T2'' 0
          (empty_store\<lparr> st_keys := [demo_key\<lparr> key_revoked := True \<rparr>] \<rparr>))
     = Inl (Error msg_key_revoked)
   \<and> msg_key_revoked \<noteq> msg_key_wrong_tenant
   \<and> key_tenant_id (demo_key\<lparr> key_revoked := True \<rparr>) = Some ''T1''
   \<and> demo_compare ''k1'' (key_hash (demo_key\<lparr> key_revoked := True \<rparr>))"
  by (simp add: validateAndConsumeKey_def validateAndConsumeKey_try_def consumeFetched_def
        mem_getAllRegistrationKeys_def mem_console_error_def empty_store_def demo_key_def
        demo_hash_def demo_compare_def key_msgs)

text \<open>
  Claim C1, amended. When the key the scan finds is bound to tenant A and the request names
  another tenant B, \<^verbatim>\<open>validateAndConsumeKey\<close> always fails and updates no key: with the
  revoked error if the key is revoked, else the expired error if it has expired, else the
  exhausted error if it has no uses left, and with the tenant-mismatch error otherwise. The
  only effect is the line on the console.
\<close>

theorem tenant_mismatch_always_fails:
  assumes "getAllRegistrationKeys D s = (Inr keys, s1)"
    and "findMatchingKey L plainKey keys = Some k"
    and "key_tenant_id k = Some tenantA"
    and "tenantB \<noteq> tenantA"
  shows "validateAndConsumeKey L D plainKey tenantB now s
         = (Inl (Error (if key_revoked k then msg_key_revoked
                        else if key_expired now k then msg_key_expired
                        else if key_uses_left k \<le> 0 then msg_key_exhausted
                        else msg_key_wrong_tenant)),
            console_error D
              (''Error validating registration key: '' @
                 (if key_revoked k then msg_key_revoked
                  else if key_expired now k then msg_key_expired
                  else if key_uses_left k \<le> 0 then msg_key_exhausted
                  else msg_key_wrong_tenant)) s1)"
  using assms
  by (simp add: validateAndConsumeKey_def validateAndConsumeKey_try_def consumeFetched_def)

theorem tenant_mismatch_always_fails_witness:
  "validateAndConsumeKey demo_crypto mem ''k1'' ''T2'' 0 (empty_store\<lparr> st_keys := [demo_key] \<rparr>)
     = (Inl (Error msg_key_wrong_tenant),
        mem_console_error (''Error validating registration key: '' @ msg_key_wrong_tenant)
          (empty_store\<lparr> st_keys := [demo_key] \<rparr>))"
  using tenant_mismatch_always_fails
          [of mem "empty_store\<lparr> st_keys := [demo_key] \<rparr>" "[demo_key]"
              "empty_store\<lparr> st_keys := [demo_key] \<rparr>" demo_crypto "''k1''" demo_key
              "''T1''" "''T2''" 0]
  by (simp add: mem_getAllRegistrationKeys_def empty_store_def demo_key_def demo_hash_def
        demo_compare_def key_expired_def)

text \<open>
  Claim C3, as stated, fails: a request with \<^verbatim>\<open>usesAllowed = 0\<close> stores a key with one
  use left, not with none.
\<close>

theorem generateKey_uses_counterexample:
  "fst (generateKey demo_crypto mem (demo_request\<lparr> ckr_usesAllowed := Some 0 \<rparr>) ''admin''
          ''k1'' ''salt'' empty_store) = Inr ''k1''
   \<and> map key_uses_left
        (st_keys (snd (generateKey demo_crypto mem (demo_request\<lparr> ckr_usesAllowed := Some 0 \<rparr>)
                         ''admin'' ''k1'' ''salt'' empty_store))) = [1]"
  by (simp add: generateKey_def generateKey_try_def mem_createRegistrationKey_def keyData_def
        demo_request_def tenantId_missing_def js_trim_def js_whitespace_def usesAllowed_or_1_def
        empty_store_def)

text \<open>
  Claim C3, amended. The tenant id counts as empty when it is missing or consists of white
  space only. With an empty tenant id \<^verbatim>\<open>generateKey\<close> fails with the validation error
  (behind the prefix of its \<^verbatim>\<open>catch\<close>) and stores nothing. Otherwise, on a store that
  accepts the write, it returns the plain key and appends exactly one key record, whose
  uses left are \<^verbatim>\<open>usesAllowed\<close> when that is given and not 0, and 1 when it is absent or 0,
  which is not revoked and whose usage log is empty.
\<close>

theorem generateKey_persists:
  "tenantId_missing (ckr_tenantId request)
     = (case ckr_tenantId request of None \<Rightarrow> True | Some str \<Rightarrow> list_all js_whitespace str)
   \<and> (tenantId_missing (ckr_tenantId request) \<longrightarrow>
        generateKey L mem request createdBy key salt s
          = (Inl (Error (''Failed to generate registration key: '' @ msg_tenant_required)),
             s\<lparr> st_console := st_console s @ [''Error in generateKey: '' @ msg_tenant_required] \<rparr>))
   \<and> (\<not> tenantId_missing (ckr_tenantId request) \<longrightarrow>
        (let r = generateKey L mem request createdBy key salt s;
             row = last (st_keys (snd r))
         in fst r = Inr key
            \<and> snd r = s\<lparr> st_keys := st_keys s @ [row], st_next_id := Suc (st_next_id s) \<rparr>
            \<and> key_uses_left row
               = (case ckr_usesAllowed request of None \<Rightarrow> 1 | Some n \<Rightarrow> if n = 0 then 1 else n)
            \<and> \<not> key_revoked row
            \<and> key_used_logs row = Some []
            \<and> key_hash row = bcrypt_hash L key 12 salt
            \<and> key_tenant_id row = ckr_tenantId request
            \<and> key_account_type row = ckr_accountType request))"
  by (simp add: tenantId_missing_iff generateKey_def generateKey_try_def
        mem_createRegistrationKey_def mem_console_error_def keyData_def usesAllowed_or_1_def
        Let_def)

theorem generateKey_persists_witness:
  "generateKey demo_crypto mem (demo_request\<lparr> ckr_tenantId := Some '' '' \<rparr>) ''admin'' ''k1''
       ''salt'' empty_store
     = (Inl (Error (''Failed to generate registration key: '' @ msg_tenant_required)),
        empty_store\<lparr> st_console := [''Error in generateKey: '' @ msg_tenant_required] \<rparr>)
   \<and> fst (generateKey demo_crypto mem (demo_request\<lparr> ckr_usesAllowed := Some 3 \<rparr>) ''admin''
             ''k1'' ''salt'' empty_store) = Inr ''k1''
   \<and> key_uses_left
        (last (st_keys (snd (generateKey demo_crypto mem
                               (demo_request\<lparr> ckr_usesAllowed := Some 3 \<rparr>)
                               ''admin'' ''k1'' ''salt'' empty_store)))) = 3"
  using generateKey_persists
          [of "demo_request\<lparr> ckr_tenantId := Some '' '' \<rparr>" demo_crypto "''admin''" "''k1''"
              "''salt''" empty_store]
        generateKey_persists
          [of "demo_request\<lparr> ckr_usesAllowed := Some 3 \<rparr>" demo_crypto "''admin''" "''k1''"
              "''salt''" empty_store]
  by (simp add: demo_request_def tenantId_missing_def js_trim_def js_whitespace_def
        empty_store_def Let_def)

section \<open>Properties of the authentication service\<close>

text \<open>
  Claim C5. When the database finds no user for the first email, and finds an active user
  for the second email whose password hash the wrong password does not match, both calls of
  \<^verbatim>\<open>loginUser\<close> fail, and with the same error: the message \<^verbatim>\<open>Invalid credentials\<close>.
\<close>

theorem loginUser_same_error:
  assumes "findUserByEmail D e1 s = (Inr None, s1)"
    and "findUserByEmail D e2 s = (Inr (Some u), s2)"
    and "usr_isActive u"
    and "\<not> bcrypt_compare L wrongPassword (usr_password u)"
  shows "fst (loginUser svc L D e1 p1 now salt s) = Inl (Error ''Invalid credentials'')
       \<and> fst (loginUser svc L D e2 wrongPassword now salt s) = Inl (Error ''Invalid credentials'')
       \<and> fst (loginUser svc L D e1 p1 now salt s)
         = fst (loginUser svc L D e2 wrongPassword now salt s)"
  using assms by (simp add: loginUser_def verifyPassword_def)

theorem loginUser_same_error_witness:
  "fst (loginUser demo_service demo_crypto mem ''nobody@x.com'' ''secret'' 0 ''s''
          (empty_store\<lparr> st_users := [demo_user] \<rparr>))
     = Inl (Error ''Invalid credentials'')
   \<and> fst (loginUser demo_service demo_crypto mem ''a@x.com'' ''wrong'' 0 ''s''
          (empty_store\<lparr> st_users := [demo_user] \<rparr>))
     = Inl (Error ''Invalid credentials'')"
  using loginUser_same_error
          [of mem "''nobody@x.com''" "empty_store\<lparr> st_users := [demo_user] \<rparr>"
              "empty_store\<lparr> st_users := [demo_user] \<rparr>" "''a@x.com''" demo_user
              "empty_store\<lparr> st_users := [demo_user] \<rparr>" demo_crypto "''wrong''"
              demo_service "''secret''" 0 "''s''"]
  by (simp add: mem_findUserByEmail_def empty_store_def demo_user_def demo_hash_def
        demo_compare_def)

text \<open>
  Claim C9. Whatever the database does, \<^verbatim>\<open>generateTokens\<close> returns the signed pair, and
  when the write of the refresh-token record is rejected the only trace is a line on the
  console; \<^verbatim>\<open>revokeAllTokens\<close> always returns normally, a rejected
  \<^verbatim>\<open>revokeAllUserTokens\<close> leaving only a line on the console, and for an admin it touches
  nothing.
\<close>

theorem storage_failures_swallowed:
  "fst (generateTokens svc L D u now salt s) = Inr (signedTokens svc L u now)
   \<and> (\<forall>e s1. createRefreshToken D
                 \<lparr> rt_tokenHash = bcrypt_hash L (refreshToken (signedTokens svc L u now)) 10 salt,
                   rt_userId = usr_id u, rt_expiresAt = now + 604800000, rt_isActive = True \<rparr> s
               = (Inl e, s1)
        \<longrightarrow> snd (generateTokens svc L D u now salt s)
              = console_error D (''Error storing refresh token: '' @ message e) s1)
   \<and> fst (revokeAllTokens D userId isAdmin s) = Inr ()
   \<and> (\<forall>e s1. \<not> isAdmin \<and> revokeAllUserTokens D userId s = (Inl e, s1)
        \<longrightarrow> snd (revokeAllTokens D userId isAdmin s)
              = console_error D (''Error revoking tokens: '' @ message e) s1)
   \<and> (isAdmin \<longrightarrow> snd (revokeAllTokens D userId isAdmin s) = s)"
  by (auto simp: generateTokens_def revokeAllTokens_def Let_def split: prod.splits sum.splits)

theorem storage_failures_swallowed_witness:
  "generateTokens demo_service demo_crypto failing_writes demo_user 1 ''s'' empty_store
     = (Inr \<lparr> accessToken = ''a|u1|a@x.com|+'', refreshToken = ''r|u1|a@x.com|+'' \<rparr>,
        empty_store\<lparr> st_console := [''Error storing refresh token: connection lost''] \<rparr>)
   \<and> revokeAllTokens failing_writes ''u1'' False empty_store
     = (Inr (), empty_store\<lparr> st_console := [''Error revoking tokens: connection lost''] \<rparr>)
   \<and> revokeAllTokens failing_writes ''u1'' True empty_store = (Inr (), empty_store)"
  using storage_failures_swallowed
          [of demo_service demo_crypto failing_writes demo_user 1 "''s''" empty_store "''u1''" False]
        storage_failures_swallowed
          [of demo_service demo_crypto failing_writes demo_user 1 "''s''" empty_store "''u1''" True]
  by (simp add: failing_writes_def mem_console_error_def empty_store_def signedTokens_def
        tokenPayload_def demo_user_def demo_service_def demo_sign_def env_or_def prod_eq_iff)

text \<open>The token functions on the store in memory.\<close>

lemma isValidToken_find:
  "isValidToken L token xs = (find (\<lambda>x. bcrypt_compare L token (rt_tokenHash x)) xs \<noteq> None)"
  by (induction xs) auto

lemma revokeMatching_mem:
  "revokeMatching L mem token xs s
     = (Inr (),
        case find (\<lambda>x. bcrypt_compare L token (rt_tokenHash x)) xs of
          None \<Rightarrow> s
        | Some m \<Rightarrow> s\<lparr> st_tokens := map (\<lambda>t. if rt_id t = rt_id m then t\<lparr> rt_isActive := False \<rparr> else t) (st_tokens s) \<rparr>)"
  by (induction xs) (auto simp: mem_revokeRefreshTokenById_def)

lemma verifyRefreshToken_mem:
  "verifyRefreshToken svc L mem token now s
     = (case jwt_verify L token (refreshTokenSecret svc) now of
          None \<Rightarrow> (Inl (Error ''Invalid or expired refresh token''), s)
        | Some d \<Rightarrow>
            if list_ex (\<lambda>x. rt_userId x = tp_userId d \<and> rt_isActive x
                             \<and> bcrypt_compare L token (rt_tokenHash x)) (st_tokens s)
            then (Inr d, s)
            else (Inl (Error ''Invalid or expired refresh token''), s))"
  by (auto simp: verifyRefreshToken_def mem_getActiveRefreshTokensForUser_def isValidToken_find
        find_None_iff list_ex_iff split: option.splits)

lemma generateTokens_mem:
  "generateTokens svc L mem u now salt s
     = (Inr (signedTokens svc L u now),
        s\<lparr> st_tokens := st_tokens s @
              [\<lparr> rt_tokenHash = bcrypt_hash L (refreshToken (signedTokens svc L u now)) 10 salt,
                 rt_userId = usr_id u, rt_expiresAt = now + 604800000, rt_isActive = True,
                 rt_id = fresh_id s \<rparr>],
           st_next_id := Suc (st_next_id s) \<rparr>)"
  by (simp add: generateTokens_def mem_createRefreshToken_def Let_def)

text \<open>
  Whatever the library: after a successful rotation of \<^verbatim>\<open>t\<close>, if \<^verbatim>\<open>t\<close> matches the hash
  stored for the new token, \<^verbatim>\<open>t\<close> still verifies.
\<close>

lemma rotated_token_still_verifies:
  assumes ok: "refreshTokens svc L mem token now salt s = (Inr (u, tokens), s')"
    and sig: "jwt_verify L token (refreshTokenSecret svc) now2 = Some d"
    and same_user: "tp_userId d = usr_id u"
    and shared: "bcrypt_compare L token (bcrypt_hash L (refreshToken tokens) 10 salt)"
  shows "verifyRefreshToken svc L mem token now2 s' = (Inr d, s')"
proof -
  from ok have "tokens = signedTokens svc L u now
      \<and> (\<exists>old. st_tokens s' = old @
             [\<lparr> rt_tokenHash = bcrypt_hash L (refreshToken tokens) 10 salt,
                rt_userId = usr_id u, rt_expiresAt = now + 604800000, rt_isActive = True,
                rt_id = fresh_id s \<rparr>])"
    by (auto simp: refreshTokens_def verifyRefreshToken_mem mem_findUserByEmail_def
          mem_getActiveRefreshTokensForUser_def revokeMatching_mem generateTokens_mem
          fresh_id_def
          split: option.splits if_splits)
  with sig same_user shared show ?thesis
    by (auto simp: verifyRefreshToken_mem)
qed

lemma bcrypt72_crypto_fields [simp]:
  "bcrypt_hash bcrypt72_crypto = bcrypt72_hash"
  "bcrypt_compare bcrypt72_crypto = bcrypt72_compare"
  "jwt_sign bcrypt72_crypto = layout_sign"
  "jwt_verify bcrypt72_crypto = layout_verify"
  by (simp_all add: bcrypt72_crypto_def)

lemmas uuid_defs = uuid_session_def uuid_token_def uuid_user_def demo_user_def
  demo_service_def empty_store_def layout_sign_def layout_verify_def jwt_header_def
  bcrypt72_hash_def bcrypt72_compare_def demo_hash_def tokenPayload_def signedTokens_def
  env_or_def fresh_id_def

lemma uuid_first_rotation:
  "refreshTokens demo_service bcrypt72_crypto mem uuid_token 1 ''s1'' uuid_session
     = (Inr (uuid_user, signedTokens demo_service bcrypt72_crypto uuid_user 1),
        uuid_session
          \<lparr> st_tokens :=
               [\<lparr> rt_tokenHash = bcrypt72_hash uuid_token 10 ''s0'',
                   rt_userId = usr_id uuid_user, rt_expiresAt = 604800000,
                   rt_isActive = False, rt_id = ''t0'' \<rparr>,
                \<lparr> rt_tokenHash =
                     bcrypt72_hash (layout_sign (tokenPayload uuid_user) ''r'' ''7d'' 1) 10 ''s1'',
                   rt_userId = usr_id uuid_user, rt_expiresAt = 604800001,
                   rt_isActive = True, rt_id = ''id-'' \<rparr>],
             st_next_id := 1 \<rparr>)"
  by (simp add: refreshTokens_def verifyRefreshToken_mem generateTokens_mem
        mem_findUserByEmail_def mem_getActiveRefreshTokensForUser_def
        mem_revokeRefreshTokenById_def uuid_defs)

text \<open>
  Claim C4 asks that after a successful \<^verbatim>\<open>refreshTokens(t)\<close> a second call with \<^verbatim>\<open>t\<close>
  fails. With a hash that reads the first 72 bytes only, the code does otherwise: the token
  issued by the rotation differs from \<^verbatim>\<open>t\<close> but shares its first 72 characters, so \<^verbatim>\<open>t\<close>
  matches the hash of the new record; \<^verbatim>\<open>verifyRefreshToken(t)\<close> succeeds after the rotation,
  as it does for the new token, and a second \<^verbatim>\<open>refreshTokens(t)\<close> succeeds and revokes the
  record of the new token.
\<close>

theorem refresh_rotation_reuse:
  "fst (refreshTokens demo_service bcrypt72_crypto mem uuid_token 1 ''s1'' uuid_session)
     = Inr (uuid_user, signedTokens demo_service bcrypt72_crypto uuid_user 1)
   \<and> refreshToken (signedTokens demo_service bcrypt72_crypto uuid_user 1) \<noteq> uuid_token
   \<and> take 72 (refreshToken (signedTokens demo_service bcrypt72_crypto uuid_user 1))
       = take 72 uuid_token
   \<and> fst (verifyRefreshToken demo_service bcrypt72_crypto mem uuid_token 2
            (snd (refreshTokens demo_service bcrypt72_crypto mem uuid_token 1 ''s1''
                    uuid_session)))
     = Inr \<lparr> tp_userId = usr_id uuid_user, tp_email = ''a@x.com'', tp_name = [],
             tp_role = None, tp_tenantId = None, tp_accountType = None \<rparr>
   \<and> fst (verifyRefreshToken demo_service bcrypt72_crypto mem
            (refreshToken (signedTokens demo_service bcrypt72_crypto uuid_user 1)) 2
            (snd (refreshTokens demo_service bcrypt72_crypto mem uuid_token 1 ''s1''
                    uuid_session)))
     = Inr \<lparr> tp_userId = usr_id uuid_user, tp_email = ''a@x.com'', tp_name = [],
             tp_role = None, tp_tenantId = None, tp_accountType = None \<rparr>
   \<and> fst (refreshTokens demo_service bcrypt72_crypto mem uuid_token 2 ''s2''
            (snd (refreshTokens demo_service bcrypt72_crypto mem uuid_token 1 ''s1''
                    uuid_session)))
     = Inr (uuid_user, signedTokens demo_service bcrypt72_crypto uuid_user 2)
   \<and> map rt_isActive
        (st_tokens
           (snd (refreshTokens demo_service bcrypt72_crypto mem uuid_token 2 ''s2''
                   (snd (refreshTokens demo_service bcrypt72_crypto mem uuid_token 1 ''s1''
                           uuid_session)))))
     = [False, False, True]"
  unfolding uuid_first_rotation snd_conv fst_conv
  by (simp add: refreshTokens_def verifyRefreshToken_mem generateTokens_mem
        mem_findUserByEmail_def mem_getActiveRefreshTokensForUser_def
        mem_revokeRefreshTokenById_def uuid_defs)


text \<open>
  The same happens with a hash that reads all of its data when one token has two records:
  two logins of one user at the same time are issued the same refresh token and leave two
  active records of it; a rotation revokes the first record only, so the same token is
  accepted a second time.
\<close>

lemmas demo_defs = demo_token_def demo_user_def demo_service_def
  empty_store_def demo_sign_def demo_verify_def demo_hash_def demo_compare_def
  tokenPayload_def signedTokens_def env_or_def fresh_id_def

lemma two_sessions_store:
  "two_sessions
     = empty_store
         \<lparr> st_users := [demo_user],
           st_tokens :=
             [\<lparr> rt_tokenHash = demo_hash demo_token 10 ''s1'', rt_userId = ''u1'',
                 rt_expiresAt = 604800000, rt_isActive = True, rt_id = ''id-'' \<rparr>,
              \<lparr> rt_tokenHash = demo_hash demo_token 10 ''s2'', rt_userId = ''u1'',
                 rt_expiresAt = 604800000, rt_isActive = True, rt_id = ''id-i'' \<rparr>],
           st_logins := [''u1'', ''u1''],
           st_next_id := 2 \<rparr>"
  by (simp add: two_sessions_def loginUser_def verifyPassword_def generateTokens_mem
        mem_findUserByEmail_def mem_updateUserLastLogin_def demo_defs)

lemma refresh_reuse_with_two_records:
  "fst (refreshTokens demo_service demo_crypto mem demo_token 1 ''s3'' two_sessions)
     = Inr (demo_user, signedTokens demo_service demo_crypto demo_user 1)
   \<and> fst (refreshTokens demo_service demo_crypto mem demo_token 2 ''s4''
            (snd (refreshTokens demo_service demo_crypto mem demo_token 1 ''s3'' two_sessions)))
     = Inr (demo_user, signedTokens demo_service demo_crypto demo_user 2)"
  by (simp add: two_sessions_store refreshTokens_def verifyRefreshToken_mem generateTokens_mem
        mem_findUserByEmail_def mem_getActiveRefreshTokensForUser_def
        mem_revokeRefreshTokenById_def demo_defs)

section \<open>Properties of consumption\<close>

text \<open>
  The model of a call is the fetch followed by the rest of the call, so the rest of the
  call is what runs after the suspension.
\<close>

lemma validateAndConsumeKey_resumes:
  "validateAndConsumeKey L D plainKey tenant now s
     = (case getAllRegistrationKeys D s of
          (fetched, s1) \<Rightarrow> validateAndConsumeKey_resume L D plainKey tenant now fetched s1)"
  by (simp add: validateAndConsumeKey_def validateAndConsumeKey_try_def
        validateAndConsumeKey_resume_def split: prod.splits sum.splits)

text \<open>Subtraction is exact on the counts up to \<open>2 ^ 53\<close>, and not beyond.\<close>

lemma double_spacing_small: "a < 2 ^ 53 \<Longrightarrow> double_spacing a = 1"
  by (subst double_spacing.simps) simp

lemma to_double_small: "\<bar>m\<bar> < 2 ^ 53 \<Longrightarrow> to_double m = m"
  by (simp add: to_double_def double_spacing_small Let_def)

lemma js_minus_exact: "0 < a \<Longrightarrow> a \<le> 2 ^ 53 \<Longrightarrow> js_minus a 1 = a - 1"
  by (simp add: js_minus_def to_double_small)

lemma js_minus_1_1 [simp]: "js_minus 1 1 = 0"
  by (simp add: js_minus_exact)

lemma double_spacing_below_2_54: "double_spacing 18014398509481983 = 2"
  by (subst double_spacing.simps) (simp add: double_spacing_small)

lemma js_minus_2_54: "js_minus (2 ^ 54) 1 = 2 ^ 54"
  by (simp add: js_minus_def to_double_def double_spacing_below_2_54 Let_def)

text \<open>
  Claim C6, as stated, fails: two overlapping calls for the plain key of a key with
  \<^verbatim>\<open>usesAllowed = 1\<close> both succeed; each has read one use left before the other has
  written, and both write zero.
\<close>

theorem overlapping_consumption_counterexample:
  "overlappingCalls demo_crypto mem ''k1'' ''T1'' 5 ''T1'' 6 (empty_store\<lparr> st_keys := [demo_key] \<rparr>)
     = ((Inr (COMPOSTA, ''T1''), Inr (COMPOSTA, ''T1'')),
        empty_store
          \<lparr> st_keys := [demo_key\<lparr> key_uses_left := 0,
                                   key_used_logs := Some [ConsumedLog 6 ''T1'' ''system''] \<rparr>] \<rparr>)
   \<and> key_uses_allowed demo_key = 1 \<and> key_uses_left demo_key = 1"
  by (simp add: overlappingCalls_def validateAndConsumeKey_resume_def consumeFetched_def
        mem_getAllRegistrationKeys_def mem_updateRegistrationKey_def set_usage_def
        key_expired_def empty_store_def demo_key_def demo_hash_def demo_compare_def)

text \<open>The key functions on the store in memory.\<close>

lemma findMatchingKey_set_usage:
  "findMatchingKey L p (map (set_usage i n logs) keys)
     = map_option (set_usage i n logs) (findMatchingKey L p keys)"
  by (induction keys) (auto simp: set_usage_def)

lemma validateAndConsumeKey_mem:
  "validateAndConsumeKey L mem p tenant now s
     = (case findMatchingKey L p (st_keys s) of
          None \<Rightarrow> (Inl (Error msg_key_invalid),
                    mem_console_error (''Error validating registration key: '' @ msg_key_invalid) s)
        | Some k \<Rightarrow>
            if key_revoked k
            then (Inl (Error msg_key_revoked),
                  mem_console_error (''Error validating registration key: '' @ msg_key_revoked) s)
            else if key_expired now k
            then (Inl (Error msg_key_expired),
                  mem_console_error (''Error validating registration key: '' @ msg_key_expired) s)
            else if key_uses_left k \<le> 0
            then (Inl (Error msg_key_exhausted),
                  mem_console_error (''Error validating registration key: '' @ msg_key_exhausted) s)
            else if key_tenant_id k \<noteq> Some tenant
            then (Inl (Error msg_key_wrong_tenant),
                  mem_console_error (''Error validating registration key: '' @ msg_key_wrong_tenant) s)
            else (Inr (key_account_type k, tenant),
                  s\<lparr> st_keys := map (set_usage (key_id k) (js_minus (key_uses_left k) 1)
                                        ((case key_used_logs k of None \<Rightarrow> [] | Some logs \<Rightarrow> logs)
                                           @ [ConsumedLog now tenant ''system'']))
                                   (st_keys s) \<rparr>))"
  by (auto simp: validateAndConsumeKey_def validateAndConsumeKey_try_def consumeFetched_def
        mem_getAllRegistrationKeys_def mem_updateRegistrationKey_def split: option.splits)

lemma failed_call_keeps_keys:
  "validateAndConsumeKey L mem p tenant now s = (Inl e, s1) \<Longrightarrow> st_keys s1 = st_keys s"
  by (auto simp: validateAndConsumeKey_mem mem_console_error_def split: option.splits if_splits)

lemma failed_call_when_no_uses:
  "findMatchingKey L p (st_keys s) = Some k \<Longrightarrow> key_uses_left k \<le> 0 \<Longrightarrow>
   \<exists>e s1. validateAndConsumeKey L mem p tenant now s = (Inl e, s1)"
  by (simp add: validateAndConsumeKey_mem)

lemma successful_call_uses_one:
  assumes "validateAndConsumeKey L mem p tenant now s = (Inr r, s1)"
    and "findMatchingKey L p (st_keys s) = Some k"
    and "key_uses_left k \<le> 2 ^ 53"
  shows "0 < key_uses_left k \<and> \<not> key_revoked k
       \<and> (\<exists>k1. findMatchingKey L p (st_keys s1) = Some k1 \<and> key_id k1 = key_id k
              \<and> key_uses_left k1 = key_uses_left k - 1
              \<and> key_revoked k1 = key_revoked k \<and> key_expires_at k1 = key_expires_at k)"
  using assms
  by (auto simp: validateAndConsumeKey_mem findMatchingKey_set_usage set_usage_def
        js_minus_exact split: if_splits)

lemma successes_Cons [simp]:
  "successes (Inl e # rs) = successes rs"
  "successes (Inr v # rs) = Suc (successes rs)"
  "successes [] = 0"
  by (simp_all add: successes_def)

lemma sequential_uses:
  "findMatchingKey L p (st_keys s) = Some k \<Longrightarrow> key_uses_left k \<le> 2 ^ 53 \<Longrightarrow>
   (case consumeSequentially L mem p calls s of
      (rs, s') \<Rightarrow>
        int (successes rs) \<le> max 0 (key_uses_left k)
        \<and> (\<exists>k'. findMatchingKey L p (st_keys s') = Some k' \<and> key_id k' = key_id k
               \<and> key_uses_left k' = key_uses_left k - int (successes rs)))"
proof (induction calls arbitrary: s k)
  case Nil
  then show ?case by simp
next
  case (Cons c calls)
  obtain tenant now where c: "c = (tenant, now)" by (cases c)
  obtain r s1 where call: "validateAndConsumeKey L mem p tenant now s = (r, s1)"
    by (cases "validateAndConsumeKey L mem p tenant now s")
  obtain rs s2 where rest: "consumeSequentially L mem p calls s1 = (rs, s2)"
    by (cases "consumeSequentially L mem p calls s1")
  show ?case
  proof (cases r)
    case (Inl e)
    with call have "st_keys s1 = st_keys s" by (simp add: failed_call_keeps_keys)
    with Cons.prems have "findMatchingKey L p (st_keys s1) = Some k" by simp
    from Cons.IH [OF this Cons.prems(2)] rest c call Inl show ?thesis by simp
  next
    case (Inr v)
    with call successful_call_uses_one [OF _ Cons.prems(1) Cons.prems(2)]
    obtain k1 where k1: "findMatchingKey L p (st_keys s1) = Some k1" "key_id k1 = key_id k"
        "key_uses_left k1 = key_uses_left k - 1" "0 < key_uses_left k"
      by blast
    with Cons.prems(2) have "key_uses_left k1 \<le> 2 ^ 53" by simp
    from Cons.IH [OF k1(1) this] rest c call Inr k1 show ?thesis by auto
  qed
qed

lemma sequential_after_exhaustion:
  "findMatchingKey L p (st_keys s) = Some k \<Longrightarrow> \<not> key_revoked k \<Longrightarrow> key_uses_left k \<le> 0 \<Longrightarrow>
   fst (consumeSequentially L mem p calls s)
     = map (\<lambda>(tenant, now). Inl (Error (if key_expired now k then msg_key_expired
                                          else msg_key_exhausted))) calls"
proof (induction calls arbitrary: s)
  case Nil
  then show ?case by simp
next
  case (Cons c calls)
  obtain tenant now where c: "c = (tenant, now)" by (cases c)
  let ?e = "Error (if key_expired now k then msg_key_expired else msg_key_exhausted)"
  from Cons.prems have call: "fst (validateAndConsumeKey L mem p tenant now s) = Inl ?e"
    by (simp add: validateAndConsumeKey_mem)
  then obtain s1 where s1: "validateAndConsumeKey L mem p tenant now s = (Inl ?e, s1)"
    by (cases "validateAndConsumeKey L mem p tenant now s") simp
  then have "st_keys s1 = st_keys s" by (rule failed_call_keeps_keys)
  with Cons.prems have "findMatchingKey L p (st_keys s1) = Some k" by simp
  from Cons.IH [OF this Cons.prems(2,3)] s1 c show ?case
    by (cases "consumeSequentially L mem p calls s1") simp
qed

lemma findRegistrationKey_None:
  "findRegistrationKey L key xs = None
     \<longleftrightarrow> (\<forall>x\<in>set xs. \<not> (key_hash x \<noteq> [] \<and> bcrypt_compare L key (key_hash x)))"
  by (induction xs) auto

lemma registerUser_mem_no_key:
  "findRegistrationKey L key (filter (key_valid now) (st_keys s)) = None \<Longrightarrow>
   fst (registerUser svc L mem email password name key now pwSalt salt s)
     = Inl (Error ''Invalid or expired registration key'')"
  by (simp add: registerUser_def mem_findValidRegistrationKeys_def)

lemma registerUser_mem_keys:
  assumes "registerUser svc L mem email password name key now pwSalt salt s = (Inr r, s1)"
  shows "\<exists>k logs. findRegistrationKey L key (filter (key_valid now) (st_keys s)) = Some k
           \<and> st_keys s1 = map (set_usage (key_id k) (js_minus (key_uses_left k) 1) logs) (st_keys s)"
  using assms
  by (auto simp: registerUser_def mem_findValidRegistrationKeys_def mem_findUserByEmail_def
        mem_getAllTenants_def mem_createUser_def mem_updateRegistrationKey_def
        generateTokens_def mem_createRefreshToken_def Let_def
        split: option.splits if_splits)

lemma register_after_last_use:
  assumes ok: "registerUser svc L mem email password name key now pwSalt salt s = (Inr r, s1)"
    and found: "findRegistrationKey L key (filter (key_valid now) (st_keys s)) = Some k"
    and last: "key_uses_left k = 1"
    and only: "list_all (\<lambda>x. bcrypt_compare L key (key_hash x) \<longrightarrow> key_id x = key_id k) (st_keys s)"
  shows "fst (registerUser svc L mem email2 password2 name2 key now2 pwSalt2 salt2 s1)
           = Inl (Error ''Invalid or expired registration key'')"
proof -
  from registerUser_mem_keys [OF ok] found obtain logs where
    keys: "st_keys s1 = map (set_usage (key_id k) (js_minus (key_uses_left k) 1) logs) (st_keys s)"
    by auto
  have "\<not> (key_hash y \<noteq> [] \<and> bcrypt_compare L key (key_hash y))"
    if "y \<in> set (filter (key_valid now2) (st_keys s1))" for y
  proof
    assume m: "key_hash y \<noteq> [] \<and> bcrypt_compare L key (key_hash y)"
    from that keys obtain x where x: "x \<in> set (st_keys s)"
        "y = set_usage (key_id k) (js_minus (key_uses_left k) 1) logs x" and v: "key_valid now2 y"
      by auto
    from x(2) have "key_hash y = key_hash x" by (simp add: set_usage_def)
    with m only x(1) have "key_id x = key_id k" by (auto simp: list_all_iff)
    with x(2) last have "key_uses_left y = 0" by (simp add: set_usage_def)
    with v show False by (simp add: key_valid_def)
  qed
  then have "findRegistrationKey L key (filter (key_valid now2) (st_keys s1)) = None"
    unfolding findRegistrationKey_None by blast
  then show ?thesis by (rule registerUser_mem_no_key)
qed

lemma key_expired_cong: "key_expires_at k1 = key_expires_at k \<Longrightarrow> key_expired now k1 = key_expired now k"
  by (simp add: key_expired_def)

text \<open>
  Claim C6, amended. Take a key whose uses left are an integer of at most \<open>2 ^ 53\<close>, and
  calls that do not overlap (each starts when the one before has returned). The successful
  calls of \<^verbatim>\<open>validateAndConsumeKey\<close> for its plain key never outnumber the uses it had left
  (none succeeds when they were zero or negative), the uses left end as what they were
  minus the number of successes, and so never below zero unless they started there. After
  the success that takes the last use of a key, every later call fails, with the exhausted
  error, or with the expired error once the key has expired. After a \<^verbatim>\<open>registerUser\<close> that
  took the last use of a key which no other stored key shares its plain key with, every
  later \<^verbatim>\<open>registerUser\<close> with that plain key fails with
  \<^verbatim>\<open>Invalid or expired registration key\<close>. Nothing is promised for calls that overlap.
\<close>

theorem sequential_consumption:
  "(findMatchingKey L plainKey (st_keys s) = Some k \<and> key_uses_left k \<le> 2 ^ 53 \<longrightarrow>
      (case consumeSequentially L mem plainKey calls s of
         (rs, s') \<Rightarrow>
           int (successes rs) \<le> max 0 (key_uses_left k)
           \<and> (\<exists>k'. findMatchingKey L plainKey (st_keys s') = Some k' \<and> key_id k' = key_id k
                  \<and> key_uses_left k' = key_uses_left k - int (successes rs)
                  \<and> min 0 (key_uses_left k) \<le> key_uses_left k')))
   \<and> (findMatchingKey L plainKey (st_keys s) = Some k \<and> key_uses_left k = 1
        \<and> validateAndConsumeKey L mem plainKey tenant now s = (Inr r, s1) \<longrightarrow>
      fst (consumeSequentially L mem plainKey calls s1)
        = map (\<lambda>(tenant', now'). Inl (Error (if key_expired now' k then msg_key_expired
                                               else msg_key_exhausted))) calls)
   \<and> (registerUser svc L mem email password name plainKey now pwSalt salt s = (Inr u, s2)
        \<and> findRegistrationKey L plainKey (filter (key_valid now) (st_keys s)) = Some k
        \<and> key_uses_left k = 1
        \<and> list_all (\<lambda>x. bcrypt_compare L plainKey (key_hash x) \<longrightarrow> key_id x = key_id k)
             (st_keys s) \<longrightarrow>
      fst (registerUser svc L mem email' password' name' plainKey now' pwSalt' salt' s2)
        = Inl (Error ''Invalid or expired registration key''))"
proof (intro conjI impI)
  assume a: "findMatchingKey L plainKey (st_keys s) = Some k \<and> key_uses_left k \<le> 2 ^ 53"
  with sequential_uses [of L plainKey s k calls]
  show "case consumeSequentially L mem plainKey calls s of
          (rs, s') \<Rightarrow>
            int (successes rs) \<le> max 0 (key_uses_left k)
            \<and> (\<exists>k'. findMatchingKey L plainKey (st_keys s') = Some k' \<and> key_id k' = key_id k
                   \<and> key_uses_left k' = key_uses_left k - int (successes rs)
                   \<and> min 0 (key_uses_left k) \<le> key_uses_left k')"
    by (auto split: prod.splits)
next
  assume a: "findMatchingKey L plainKey (st_keys s) = Some k \<and> key_uses_left k = 1
             \<and> validateAndConsumeKey L mem plainKey tenant now s = (Inr r, s1)"
  with successful_call_uses_one [of L plainKey tenant now s r s1 k]
  obtain k1 where k1: "findMatchingKey L plainKey (st_keys s1) = Some k1"
      "key_uses_left k1 = 0" "\<not> key_revoked k1" "key_expires_at k1 = key_expires_at k"
    by auto
  from sequential_after_exhaustion [OF k1(1) k1(3), of calls] k1(2)
  show "fst (consumeSequentially L mem plainKey calls s1)
          = map (\<lambda>(tenant', now'). Inl (Error (if key_expired now' k then msg_key_expired
                                                 else msg_key_exhausted))) calls"
    by (simp add: key_expired_cong [OF k1(4)])
next
  assume "registerUser svc L mem email password name plainKey now pwSalt salt s = (Inr u, s2)
          \<and> findRegistrationKey L plainKey (filter (key_valid now) (st_keys s)) = Some k
          \<and> key_uses_left k = 1
          \<and> list_all (\<lambda>x. bcrypt_compare L plainKey (key_hash x) \<longrightarrow> key_id x = key_id k)
               (st_keys s)"
  then show "fst (registerUser svc L mem email' password' name' plainKey now' pwSalt' salt' s2)
               = Inl (Error ''Invalid or expired registration key'')"
    using register_after_last_use by blast
qed


lemma demo_first_call:
  "validateAndConsumeKey demo_crypto mem ''k1'' ''T1'' 5 demo_onboarding
     = (Inr (COMPOSTA, ''T1''),
        demo_onboarding
          \<lparr> st_keys := [demo_key\<lparr> key_uses_left := 0,
                                   key_used_logs := Some [ConsumedLog 5 ''T1'' ''system''] \<rparr>] \<rparr>)"
  by (simp add: validateAndConsumeKey_mem demo_onboarding_def empty_store_def demo_key_def
        demo_hash_def demo_compare_def key_expired_def set_usage_def)

lemma demo_first_registration:
  "registerUser demo_service demo_crypto mem ''a@x.com'' ''secret'' ''Ana'' ''k1'' 5 ''pw'' ''s1''
       demo_onboarding
     = (Inr (withoutPassword (demo_user\<lparr> usr_id := ''id-'' \<rparr>),
             signedTokens demo_service demo_crypto (demo_user\<lparr> usr_id := ''id-'' \<rparr>) 5, False),
        demo_onboarding
          \<lparr> st_keys := [demo_key\<lparr> key_uses_left := 0,
                                   key_used_logs := Some [RegisteredLog ''id-'' ''a@x.com'' 5] \<rparr>],
            st_users := [demo_user\<lparr> usr_id := ''id-'' \<rparr>],
            st_tokens := [\<lparr> rt_tokenHash =
                              demo_hash (refreshToken (signedTokens demo_service demo_crypto
                                                         (demo_user\<lparr> usr_id := ''id-'' \<rparr>) 5))
                                10 ''s1'',
                            rt_userId = ''id-'', rt_expiresAt = 604800005, rt_isActive = True,
                            rt_id = ''id-i'' \<rparr>],
            st_next_id := 2 \<rparr>)"
  by (simp add: registerUser_def generateTokens_def mem_findValidRegistrationKeys_def
        mem_findUserByEmail_def mem_getAllTenants_def mem_createUser_def
        mem_updateRegistrationKey_def mem_createRefreshToken_def new_user_def hashPassword_def
        key_valid_def set_usage_def fresh_id_def demo_onboarding_def empty_store_def
        demo_key_def demo_user_def demo_hash_def demo_compare_def Let_def)


theorem sequential_consumption_witness:
  "findMatchingKey demo_crypto ''k1'' (st_keys demo_onboarding) = Some demo_key
   \<and> key_uses_left demo_key = 1
   \<and> fst (validateAndConsumeKey demo_crypto mem ''k1'' ''T1'' 5 demo_onboarding)
       = Inr (COMPOSTA, ''T1'')
   \<and> fst (consumeSequentially demo_crypto mem ''k1'' [(''T1'', 6), (''T2'', 7)]
            (snd (validateAndConsumeKey demo_crypto mem ''k1'' ''T1'' 5 demo_onboarding)))
       = [Inl (Error msg_key_exhausted), Inl (Error msg_key_exhausted)]
   \<and> int (successes (fst (consumeSequentially demo_crypto mem ''k1''
                             [(''T1'', 5), (''T1'', 6), (''T2'', 7)] demo_onboarding))) \<le> 1
   \<and> fst (registerUser demo_service demo_crypto mem ''b@x.com'' ''pw2'' ''Bia'' ''k1'' 6 ''pw''
            ''s2''
            (snd (registerUser demo_service demo_crypto mem ''a@x.com'' ''secret'' ''Ana'' ''k1''
                    5 ''pw'' ''s1'' demo_onboarding)))
       = Inl (Error ''Invalid or expired registration key'')"
proof -
  let ?s1 = "snd (validateAndConsumeKey demo_crypto mem ''k1'' ''T1'' 5 demo_onboarding)"
  let ?reg = "registerUser demo_service demo_crypto mem ''a@x.com'' ''secret'' ''Ana'' ''k1'' 5
                ''pw'' ''s1'' demo_onboarding"
  have found: "findMatchingKey demo_crypto ''k1'' (st_keys demo_onboarding) = Some demo_key"
    by (simp add: demo_onboarding_def empty_store_def demo_key_def demo_hash_def
          demo_compare_def)
  have valid: "findRegistrationKey demo_crypto ''k1'' (filter (key_valid 5) (st_keys demo_onboarding))
                 = Some demo_key"
    by (simp add: demo_onboarding_def empty_store_def demo_key_def demo_hash_def
          demo_compare_def key_valid_def)
  have only: "list_all (\<lambda>x. bcrypt_compare demo_crypto ''k1'' (key_hash x)
                              \<longrightarrow> key_id x = key_id demo_key) (st_keys demo_onboarding)"
    by (simp add: demo_onboarding_def empty_store_def)
  have one: "key_uses_left demo_key = 1"
    by (simp add: demo_key_def)
  have call: "validateAndConsumeKey demo_crypto mem ''k1'' ''T1'' 5 demo_onboarding
                = (Inr (COMPOSTA, ''T1''), ?s1)"
    by (simp add: demo_first_call)
  have reg: "?reg = (Inr (projr (fst ?reg)), snd ?reg)"
    by (simp add: demo_first_registration)
  note T = sequential_consumption
             [where L = demo_crypto and plainKey = "''k1''" and s = demo_onboarding
                and k = demo_key and tenant = "''T1''" and now = 5 and r = "(COMPOSTA, ''T1'')"
                and ?s1.0 = ?s1 and svc = demo_service and email = "''a@x.com''"
                and password = "''secret''" and name = "''Ana''" and pwSalt = "''pw''"
                and salt = "''s1''" and u = "projr (fst ?reg)" and ?s2.0 = "snd ?reg"
                and email' = "''b@x.com''" and password' = "''pw2''" and name' = "''Bia''"
                and now' = 6 and pwSalt' = "''pw''" and salt' = "''s2''"]
  from T [where calls = "[(''T1'', 5), (''T1'', 6), (''T2'', 7)]", THEN conjunct1] found one
  have p1: "int (successes (fst (consumeSequentially demo_crypto mem ''k1''
                                   [(''T1'', 5), (''T1'', 6), (''T2'', 7)] demo_onboarding))) \<le> 1"
    by (auto split: prod.splits)
  from T [where calls = "[(''T1'', 6), (''T2'', 7)]", THEN conjunct2, THEN conjunct1]
    found one call
  have p2: "fst (consumeSequentially demo_crypto mem ''k1'' [(''T1'', 6), (''T2'', 7)] ?s1)
              = [Inl (Error msg_key_exhausted), Inl (Error msg_key_exhausted)]"
    by (simp add: key_expired_def demo_key_def)
  from T [where calls = "[]", THEN conjunct2, THEN conjunct2] reg valid one only
  have p3: "fst (registerUser demo_service demo_crypto mem ''b@x.com'' ''pw2'' ''Bia'' ''k1'' 6
                   ''pw'' ''s2'' (snd ?reg))
              = Inl (Error ''Invalid or expired registration key'')"
    by blast
  have c1: "fst (validateAndConsumeKey demo_crypto mem ''k1'' ''T1'' 5 demo_onboarding)
              = Inr (COMPOSTA, ''T1'')"
    by (simp add: demo_first_call)
  from found one c1 p2 p1 p3 show ?thesis by (intro conjI)
qed



end
